theory Spec2Isabelle
  imports Main "HOL-Library.Sublist"
begin

section \<open>Strings, notifications and remote actions\<close>

text \<open>
  The gateway of \<^verbatim>\<open>server.js\<close> relays file operations of a browser client to a
  remote host: each Socket.IO handler first tries an SFTP call and, when that call
  reports an error, runs a shell command through \<^verbatim>\<open>conn.exec\<close> instead.
  JavaScript strings are modelled as \<^typ>\<open>string\<close>; the handlers only concatenate
  them, search them and replace the double-quote character, and these operations do
  not depend on the encoding.
\<close>

text \<open>\<^verbatim>\<open>s.includes(t)\<close>: \<open>t\<close> occurs in \<open>s\<close> as a contiguous run.\<close>

definition str_includes :: "string \<Rightarrow> string \<Rightarrow> bool" where
  "str_includes s t = sublist t s"

text \<open>\<^verbatim>\<open>path.replace(/"/g, '\\"')\<close>: a backslash is put before every double quote.\<close>

fun replace_dq :: "string \<Rightarrow> string" where
  "replace_dq [] = []"
| "replace_dq (c # cs) =
     (if c = CHR 0x22 then CHR 0x5C # CHR 0x22 # replace_dq cs else c # replace_dq cs)"

text \<open>\<^verbatim>\<open>path.split('/').pop()\<close>: the text after the last slash.\<close>

definition split_pop :: "string \<Rightarrow> string" where
  "split_pop p = rev (takeWhile (\<lambda>c. c \<noteq> CHR ''/'') (rev p))"

text \<open>\<^verbatim>\<open>path.substring(0, path.lastIndexOf('/') + 1)\<close>: the text up to and including
  the last slash, empty when there is none.\<close>

definition upto_last_slash :: "string \<Rightarrow> string" where
  "upto_last_slash p = rev (dropWhile (\<lambda>c. c \<noteq> CHR ''/'') (rev p))"

text \<open>\<^verbatim>\<open>a || b\<close> on strings: the empty string is falsy.\<close>

definition or_else :: "string \<Rightarrow> string \<Rightarrow> string" where
  "or_else a b = (if a = [] then b else a)"

text \<open>The payload of a \<^verbatim>\<open>socket.emit\<close>, one constructor per shape used by the handlers.\<close>

datatype payload =
    NoPayload
  | Text string
  | PathOnly string
  | PathContent string string
  | PathMessage string string
  | InitialPath "string option"
  | DirList string "(string \<times> nat \<times> bool \<times> nat \<times> nat \<times> nat) list"

datatype sftp_call =
    Readdir string
  | Rmdir string
  | Unlink string
  | Rename string string
  | Mkdir string
  | Stat string
  | CreateReadStream string
  | CreateWriteStream string nat
  | WriteEnd string

text \<open>What a handler does that is visible outside it, in the order it does it.
  Transports, shell streams and SFTP sessions are named by numbers; \<open>Respond\<close> and
  \<open>Redirect\<close> are the answers of the HTTP routes, and \<open>Throw\<close> is an exception that
  leaves a listener.\<close>

datatype body = JsonError string | JsonSuccess

datatype action =
    Emit string payload
  | Exec nat string
  | Sftp nat sftp_call
  | Shell nat
  | SftpOpen nat
  | StreamWrite nat string
  | ConnEnd nat
  | Respond nat body
  | Redirect string
  | Throw string

text \<open>The stream that \<^verbatim>\<open>conn.exec\<close> hands to its callback: chunks of standard output,
  chunks of standard error and the \<^verbatim>\<open>close\<close> event with the exit code, which is
  absent when the remote side delivered none.\<close>

datatype stream_event = Data string | StderrData string | Close "int option"

datatype exec_result = ExecError string | ExecStream "stream_event list"

text \<open>The three listeners of an exec stream: \<^verbatim>\<open>commandOutput += data\<close>,
  \<^verbatim>\<open>errorOutput += data\<close>, and \<^verbatim>\<open>close\<close>, which ends the collection. A stream
  that never closes yields nothing.\<close>

fun collect :: "stream_event list \<Rightarrow> string \<Rightarrow> string \<Rightarrow> (int option \<times> string \<times> string) option" where
  "collect [] out err = None"
| "collect (Data d # es) out err = collect es (out @ d) err"
| "collect (StderrData d # es) out err = collect es out (err @ d)"
| "collect (Close code # es) out err = Some (code, out, err)"

text \<open>The callback protocol of \<^verbatim>\<open>conn.exec(cmd, (shellErr, stream) => ...)\<close>: either the
  command could not be started, or the listeners run and \<open>on_close\<close> sees what was
  collected.\<close>

definition exec_cb ::
  "exec_result \<Rightarrow> (string \<Rightarrow> action list) \<Rightarrow> (int option \<Rightarrow> string \<Rightarrow> string \<Rightarrow> action list) \<Rightarrow> action list" where
  "exec_cb shell on_err on_close =
     (case shell of
        ExecError m \<Rightarrow> on_err m
      | ExecStream evs \<Rightarrow>
          (case collect evs [] [] of
             None \<Rightarrow> []
           | Some (code, out, err) \<Rightarrow> on_close code out err))"

section \<open>The connection registry\<close>

text \<open>\<^verbatim>\<open>sshConnections\<close> maps a session identifier to \<^verbatim>\<open>{ conn, stream }\<close> or
  \<^verbatim>\<open>{ conn, sftp }\<close>. Session identifiers are taken not to be names of properties
  that every JavaScript object inherits.\<close>

record entry =
  conn :: nat
  stream :: "nat option"
  sftp :: "nat option"

type_synonym registry = "string \<Rightarrow> entry option"

text \<open>\<^verbatim>\<open>!sshConnections[sessionId] || !sshConnections[sessionId].sftp\<close>: the guard at the
  head of every file handler, with the handles it lets through.\<close>

definition sftp_of :: "registry \<Rightarrow> string \<Rightarrow> (nat \<times> nat) option" where
  "sftp_of reg sessionId =
     (case reg sessionId of
        None \<Rightarrow> None
      | Some e \<Rightarrow> (case sftp e of None \<Rightarrow> None | Some sf \<Rightarrow> Some (conn e, sf)))"

definition no_sftp :: "action list" where
  "no_sftp = [Emit ''sftp-error'' (Text ''No active SFTP connection'')]"

section \<open>File handlers with a shell fallback\<close>

text \<open>\<^verbatim>\<open>socket.on('delete-file', ...)\<close>. \<open>sftp_err\<close> is the error of \<^verbatim>\<open>rmdir\<close> or
  \<^verbatim>\<open>unlink\<close>, if any; \<open>shell\<close> is what \<^verbatim>\<open>conn.exec\<close> does when it is called.\<close>

definition delete_file ::
  "registry \<Rightarrow> string \<Rightarrow> string \<Rightarrow> bool \<Rightarrow> string option \<Rightarrow> exec_result \<Rightarrow> action list" where
  \<open>delete_file reg sessionId path isDirectory sftp_err shell =
     (case sftp_of reg sessionId of
        None \<Rightarrow> no_sftp
      | Some (c, sf) \<Rightarrow>
          if isDirectory then
            Sftp sf (Rmdir path) #
            (case sftp_err of
               Some err \<Rightarrow>
                 Exec c (''rm -rf "'' @ replace_dq path @ ''" || echo "RM_FAILED"'') #
                 exec_cb shell
                   (\<lambda>shellErr. [Emit ''sftp-error'' (Text (''Failed to delete directory: '' @ err
                        @ ''. Shell command also failed: '' @ shellErr))])
                   (\<lambda>code commandOutput errorOutput.
                      if code \<noteq> Some 0 \<or> str_includes commandOutput ''RM_FAILED''
                      then [Emit ''sftp-error''
                              (Text (''Failed to delete directory with rm command: '' @ errorOutput))]
                      else [Emit ''delete-complete'' NoPayload])
             | None \<Rightarrow> [Emit ''delete-complete'' NoPayload])
          else
            Sftp sf (Unlink path) #
            (case sftp_err of
               Some err \<Rightarrow>
                 Exec c (''rm "'' @ replace_dq path @ ''" || echo "RM_FAILED"'') #
                 exec_cb shell
                   (\<lambda>shellErr. [Emit ''sftp-error'' (Text (''Failed to delete file: '' @ err
                        @ ''. Shell command also failed: '' @ shellErr))])
                   (\<lambda>code commandOutput errorOutput.
                      if code \<noteq> Some 0 \<or> str_includes commandOutput ''RM_FAILED''
                      then [Emit ''sftp-error''
                              (Text (''Failed to delete file with rm command: '' @ errorOutput))]
                      else [Emit ''delete-complete'' NoPayload])
             | None \<Rightarrow> [Emit ''delete-complete'' NoPayload]))\<close>

text \<open>\<^verbatim>\<open>socket.on('rename-file', ...)\<close>.\<close>

definition rename_file ::
  "registry \<Rightarrow> string \<Rightarrow> string \<Rightarrow> string \<Rightarrow> string option \<Rightarrow> exec_result \<Rightarrow> action list" where
  \<open>rename_file reg sessionId oldPath newPath sftp_err shell =
     (case sftp_of reg sessionId of
        None \<Rightarrow> no_sftp
      | Some (c, sf) \<Rightarrow>
          Sftp sf (Rename oldPath newPath) #
          (case sftp_err of
             Some err \<Rightarrow>
               Exec c (''mv "'' @ replace_dq oldPath @ ''" "'' @ replace_dq newPath
                        @ ''" || echo "MV_FAILED"'') #
               exec_cb shell
                 (\<lambda>shellErr. [Emit ''sftp-error'' (Text (''Failed to rename: '' @ err
                      @ ''. Shell command also failed: '' @ shellErr))])
                 (\<lambda>code commandOutput errorOutput.
                    if code \<noteq> Some 0 \<or> str_includes commandOutput ''MV_FAILED''
                    then [Emit ''sftp-error''
                            (Text (''Failed to rename with mv command: '' @ errorOutput))]
                    else [Emit ''rename-complete'' NoPayload])
           | None \<Rightarrow> [Emit ''rename-complete'' NoPayload]))\<close>

text \<open>\<^verbatim>\<open>socket.on('create-folder', ...)\<close>.\<close>

definition create_folder ::
  "registry \<Rightarrow> string \<Rightarrow> string \<Rightarrow> string option \<Rightarrow> exec_result \<Rightarrow> action list" where
  \<open>create_folder reg sessionId path sftp_err shell =
     (case sftp_of reg sessionId of
        None \<Rightarrow> no_sftp
      | Some (c, sf) \<Rightarrow>
          Sftp sf (Mkdir path) #
          (case sftp_err of
             Some err \<Rightarrow>
               Exec c (''mkdir -p "'' @ replace_dq path @ ''" || echo "MKDIR_FAILED"'') #
               exec_cb shell
                 (\<lambda>shellErr. [Emit ''sftp-error'' (Text (''Failed to create folder: '' @ err
                      @ ''. Shell command also failed: '' @ shellErr))])
                 (\<lambda>code commandOutput errorOutput.
                    if code \<noteq> Some 0 \<or> str_includes commandOutput ''MKDIR_FAILED''
                    then [Emit ''sftp-error''
                            (Text (''Failed to create folder with mkdir command: '' @ errorOutput))]
                    else [Emit ''folder-created'' NoPayload])
           | None \<Rightarrow> [Emit ''folder-created'' NoPayload]))\<close>

text \<open>\<^verbatim>\<open>socket.on('zip-directory', ...)\<close>. There is no SFTP call here: the handler runs
  \<^verbatim>\<open>zip -r\<close> through the shell and, when that fails, once more through \<^verbatim>\<open>/tmp\<close>.
  \<open>timestamp\<close> is the decimal text of \<^verbatim>\<open>Date.now()\<close>; \<open>shell\<close> and \<open>shell2\<close> are what
  the two \<^verbatim>\<open>conn.exec\<close> calls do.\<close>

definition zip_directory ::
  "registry \<Rightarrow> string \<Rightarrow> string \<Rightarrow> string \<Rightarrow> exec_result \<Rightarrow> exec_result \<Rightarrow> action list" where
  \<open>zip_directory reg sessionId path timestamp shell shell2 =
     (case sftp_of reg sessionId of
        None \<Rightarrow> no_sftp
      | Some (c, sf) \<Rightarrow>
          (let dirName = or_else (split_pop path) ''folder'';
               zipFileName = dirName @ ''-'' @ timestamp @ ''.zip'';
               currentDir = or_else (upto_last_slash path) ''/'';
               zipPath = currentDir @ zipFileName
           in Emit ''zip-started'' (PathMessage path ''Creating zip file...'') #
              Exec c (''zip -r "'' @ zipPath @ ''" "'' @ path @ ''" || echo "ZIP_FAILED"'') #
              exec_cb shell
                (\<lambda>err. [Emit ''sftp-error'' (Text (''Failed to create zip: '' @ err))])
                (\<lambda>code commandOutput errorOutput.
                   if code \<noteq> Some 0 \<or> str_includes commandOutput ''ZIP_FAILED''
                   then
                     (let tempZipPath = ''/tmp/'' @ zipFileName
                      in Exec c (''zip -r "'' @ tempZipPath @ ''" "'' @ path @ ''" && cp "''
                                  @ tempZipPath @ ''" "'' @ currentDir @ ''" && rm "''
                                  @ tempZipPath @ ''" || echo "TEMP_ZIP_FAILED"'') #
                         exec_cb shell2
                           (\<lambda>err. [Emit ''sftp-error'' (Text (''Failed to create zip: '' @ err))])
                           (\<lambda>sudoCode sudoOutput sudoErr.
                              if sudoCode \<noteq> Some 0 \<or> str_includes sudoOutput ''TEMP_ZIP_FAILED''
                              then [Emit ''sftp-error''
                                      (Text (''Failed to create zip file: '' @ errorOutput))]
                              else [Emit ''zip-complete'' (PathOnly (currentDir @ zipFileName))]))
                   else [Emit ''zip-complete'' (PathOnly zipPath)])))\<close>

section \<open>File handlers without a working fallback\<close>

text \<open>\<^verbatim>\<open>socket.on('list-directory', ...)\<close>. An item of the listing is its file name, size,
  directory flag, modification time in seconds, mode and owner; the handler turns the
  time into milliseconds.\<close>

definition list_directory ::
  "registry \<Rightarrow> string \<Rightarrow> string
   \<Rightarrow> string + (string \<times> nat \<times> bool \<times> nat \<times> nat \<times> nat) list \<Rightarrow> action list" where
  "list_directory reg sessionId path res =
     (case sftp_of reg sessionId of
        None \<Rightarrow> no_sftp
      | Some (c, sf) \<Rightarrow>
          Sftp sf (Readdir path) #
          (case res of
             Inl err \<Rightarrow> [Emit ''sftp-error'' (Text (''Failed to read directory: '' @ err))]
           | Inr list \<Rightarrow>
               [Emit ''directory-list''
                  (DirList path
                     (map (\<lambda>(filename, size, isDir, mtime, mode, uid).
                             (filename, size, isDir, mtime * 1000, mode, uid)) list))]))"

text \<open>The events of an SFTP write stream, each with its own listener.\<close>

datatype ws_event = WsError string | WsClose

text \<open>\<^verbatim>\<open>socket.on('upload-file', ...)\<close>. The \<^verbatim>\<open>error\<close> listener announces a retry and
  stops there: no command is run.\<close>

fun upload_events :: "ws_event list \<Rightarrow> action list" where
  "upload_events [] = []"
| "upload_events (WsError err # es) =
     Emit ''sftp-error'' (Text (''Upload failed: '' @ err)) #
     Emit ''message'' (Text ''Retrying upload with alternate method...'') #
     upload_events es"
| "upload_events (WsClose # es) = Emit ''upload-complete'' NoPayload # upload_events es"

definition upload_file ::
  "registry \<Rightarrow> string \<Rightarrow> string \<Rightarrow> string \<Rightarrow> ws_event list \<Rightarrow> action list" where
  "upload_file reg sessionId path fileData ws =
     (case sftp_of reg sessionId of
        None \<Rightarrow> no_sftp
      | Some (c, sf) \<Rightarrow>
          Sftp sf (CreateWriteStream path 420) # Sftp sf (WriteEnd fileData) # upload_events ws)"

section \<open>Reading and saving a file\<close>

datatype rs_event = RsData string | RsEnd | RsError string

datatype read_result = ReadThrows string | ReadStream "rs_event list"

text \<open>The listeners of the read stream of \<^verbatim>\<open>read-file\<close>: \<open>content\<close> grows with every
  chunk, \<^verbatim>\<open>end\<close> sends it, \<^verbatim>\<open>error\<close> runs \<^verbatim>\<open>cat\<close>, which has no sentinel.\<close>

fun read_events :: "nat \<Rightarrow> string \<Rightarrow> exec_result \<Rightarrow> rs_event list \<Rightarrow> string \<Rightarrow> action list" where
  \<open>read_events c path shell [] content = []\<close>
| \<open>read_events c path shell (RsData chunk # es) content =
     read_events c path shell es (content @ chunk)\<close>
| \<open>read_events c path shell (RsEnd # es) content =
     Emit ''file-content'' (PathContent path content) # read_events c path shell es content\<close>
| \<open>read_events c path shell (RsError err # es) content =
     Exec c (''cat "'' @ replace_dq path @ ''"'') #
     exec_cb shell
       (\<lambda>shellErr. [Emit ''sftp-error'' (Text (''Failed to read file: '' @ err
            @ ''. Shell command also failed: '' @ shellErr))])
       (\<lambda>code shellContent errorOutput.
          if code \<noteq> Some 0
          then [Emit ''sftp-error'' (Text (''Failed to read file with cat command: '' @ errorOutput))]
          else [Emit ''file-content'' (PathContent path shellContent)])
     @ read_events c path shell es content\<close>

text \<open>\<^verbatim>\<open>socket.on('read-file', ...)\<close>; an exception of \<^verbatim>\<open>createReadStream\<close> is caught and
  reported.\<close>

definition read_file ::
  "registry \<Rightarrow> string \<Rightarrow> string \<Rightarrow> read_result \<Rightarrow> exec_result \<Rightarrow> action list" where
  "read_file reg sessionId path rr shell =
     (case sftp_of reg sessionId of
        None \<Rightarrow> no_sftp
      | Some (c, sf) \<Rightarrow>
          Sftp sf (CreateReadStream path) #
          (case rr of
             ReadThrows m \<Rightarrow> [Emit ''sftp-error'' (Text (''Failed to read file: '' @ m))]
           | ReadStream es \<Rightarrow> read_events c path shell es []))"

datatype stat_result = StatError string | Stats nat | NoStats

text \<open>The command of the fallback of \<^verbatim>\<open>save-file\<close>: a here-document written to a temporary
  path, which is then moved over the destination. \<open>timestamp\<close> is the decimal text of
  \<^verbatim>\<open>Date.now()\<close>.\<close>

definition save_command :: "string \<Rightarrow> string \<Rightarrow> string \<Rightarrow> string" where
  \<open>save_command timestamp path content =
     (let tempPath = ''/tmp/sftp_temp_'' @ timestamp
      in ''cat > "'' @ tempPath @ ''" << '' @ [CHR 0x27] @ ''SFTPEOF'' @ [CHR 0x27, CHR 0x0A]
         @ content @ [CHR 0x0A] @ ''SFTPEOF'' @ [CHR 0x0A]
         @ '' && mv "'' @ tempPath @ ''" "'' @ replace_dq path @ ''" || echo "WRITE_FAILED"'')\<close>

text \<open>The listeners of the write stream of \<^verbatim>\<open>save-file\<close>, as far as they act at once:
  \<^verbatim>\<open>error\<close> issues the command, \<^verbatim>\<open>close\<close> sends \<^verbatim>\<open>file-saved\<close>, whether or not an
  error came before it. The stream sends \<^verbatim>\<open>close\<close> right after \<^verbatim>\<open>error\<close>.\<close>

fun save_events :: "nat \<Rightarrow> string \<Rightarrow> string \<Rightarrow> string \<Rightarrow> ws_event list \<Rightarrow> action list" where
  "save_events c path content timestamp [] = []"
| "save_events c path content timestamp (WsError err # es) =
     Exec c (save_command timestamp path content) # save_events c path content timestamp es"
| "save_events c path content timestamp (WsClose # es) =
     Emit ''file-saved'' (PathOnly path) # save_events c path content timestamp es"

text \<open>The callbacks of the commands that the \<^verbatim>\<open>error\<close> listener has issued. A callback
  runs when the remote host has answered, which is after the events of the write stream.\<close>

fun save_callbacks :: "string \<Rightarrow> exec_result \<Rightarrow> ws_event list \<Rightarrow> action list" where
  "save_callbacks path shell [] = []"
| "save_callbacks path shell (WsError err # es) =
     exec_cb shell
       (\<lambda>shellErr. [Emit ''sftp-error'' (Text (''Failed to save file: '' @ err
            @ ''. Shell command also failed: '' @ shellErr))])
       (\<lambda>code commandOutput errorOutput.
          if code \<noteq> Some 0 \<or> str_includes commandOutput ''WRITE_FAILED''
          then [Emit ''sftp-error'' (Text (''Failed to save file with shell command: '' @ errorOutput))]
          else [Emit ''file-saved'' (PathOnly path)])
     @ save_callbacks path shell es"
| "save_callbacks path shell (WsClose # es) = save_callbacks path shell es"

text \<open>\<^verbatim>\<open>socket.on('save-file', ...)\<close>: the mode of the write stream is the mode that
  \<^verbatim>\<open>stat\<close> reports, or \<^verbatim>\<open>0o644\<close> when it reports none.\<close>

definition save_file ::
  "registry \<Rightarrow> string \<Rightarrow> string \<Rightarrow> string \<Rightarrow> stat_result \<Rightarrow> ws_event list \<Rightarrow> exec_result
   \<Rightarrow> string \<Rightarrow> action list" where
  "save_file reg sessionId path content st ws shell timestamp =
     (case sftp_of reg sessionId of
        None \<Rightarrow> no_sftp
      | Some (c, sf) \<Rightarrow>
          (let mode = (case st of Stats m \<Rightarrow> m | _ \<Rightarrow> 420)
           in Sftp sf (Stat path) # Sftp sf (CreateWriteStream path mode) #
              Sftp sf (WriteEnd content) #
              (save_events c path content timestamp ws @ save_callbacks path shell ws)))"

text \<open>\<^verbatim>\<open>app.post('/file/save', isAuthenticated, ...)\<close>. A field of the request body may be
  missing; \<^verbatim>\<open>!path\<close> also holds for the empty string. Each listener of the write
  stream answers the request; once an answer has been sent (\<open>sent\<close>), the \<^verbatim>\<open>res.json\<close> of
  the next listener throws, and what the process does after that is left open.\<close>

fun file_save_listen :: "bool \<Rightarrow> ws_event list \<Rightarrow> action list" where
  "file_save_listen sent [] = []"
| "file_save_listen sent (WsError err # es) =
     (if sent then [Throw ''ERR_HTTP_HEADERS_SENT'']
      else Respond 500 (JsonError (''Failed to save file: '' @ err)) # file_save_listen True es)"
| "file_save_listen sent (WsClose # es) =
     (if sent then [Throw ''ERR_HTTP_HEADERS_SENT'']
      else Respond 200 JsonSuccess # file_save_listen True es)"

definition file_save_events :: "ws_event list \<Rightarrow> action list" where
  "file_save_events ws = file_save_listen False ws"

definition file_save ::
  "registry \<Rightarrow> bool \<Rightarrow> string option \<Rightarrow> string option \<Rightarrow> string option \<Rightarrow> ws_event list
   \<Rightarrow> action list" where
  "file_save reg authenticated path content sessionId ws =
     (if \<not> authenticated then [Redirect ''/login'']
      else
        (case (path, content, sessionId) of
           (Some p, Some cnt, Some sid) \<Rightarrow>
             if p = [] \<or> sid = []
             then [Respond 400 (JsonError ''Missing path, content, or session ID'')]
             else
               (case sftp_of reg sid of
                  None \<Rightarrow> [Respond 404 (JsonError ''No active SFTP connection'')]
                | Some (c, sf) \<Rightarrow>
                    Sftp sf (CreateWriteStream p 420) # Sftp sf (WriteEnd cnt) #
                    file_save_events ws)
         | _ \<Rightarrow> [Respond 400 (JsonError ''Missing path, content, or session ID'')]))"

text \<open>\<^verbatim>\<open>socket.on('command', ...)\<close>: the text goes to the shell stream with a line feed.\<close>

definition command :: "registry \<Rightarrow> string \<Rightarrow> string \<Rightarrow> action list" where
  "command reg sessionId cmd =
     (case reg sessionId of
        None \<Rightarrow> [Emit ''error'' (Text ''No active SSH connection'')]
      | Some e \<Rightarrow>
          (case stream e of
             None \<Rightarrow> [Emit ''error'' (Text ''No active SSH connection'')]
           | Some s \<Rightarrow> [StreamWrite s (cmd @ [CHR 0x0A])]))"

section \<open>Connecting and disconnecting\<close>

text \<open>The state of the process as far as the relay is concerned: the registry and the
  actions taken so far. Every listener runs to completion before the next one starts, so a
  listener is a function on this state.\<close>

record server =
  sshConnections :: registry
  log :: "action list"

definition act :: "action \<Rightarrow> server \<Rightarrow> server" where
  "act a s = s\<lparr>log := log s @ [a]\<rparr>"

text \<open>\<^verbatim>\<open>sshConnections[sessionId] = e\<close> and \<^verbatim>\<open>delete sshConnections[sessionId]\<close>.\<close>

definition store :: "string \<Rightarrow> entry \<Rightarrow> server \<Rightarrow> server" where
  "store sessionId e s = s\<lparr>sshConnections := (sshConnections s)(sessionId := Some e)\<rparr>"

definition delete_entry :: "string \<Rightarrow> server \<Rightarrow> server" where
  "delete_entry sessionId s = s\<lparr>sshConnections := (sshConnections s)(sessionId := None)\<rparr>"

subsection \<open>\<^verbatim>\<open>connect-ssh\<close>\<close>

text \<open>\<^verbatim>\<open>conn.on('ready', ...)\<close>: announce the connection and ask for a shell.\<close>

definition ssh_ready :: "nat \<Rightarrow> server \<Rightarrow> server" where
  "ssh_ready c s =
     act (Shell c)
       (act (Emit ''message'' (Text (''SSH connection established successfully!'' @ [CHR 0x0A]))) s)"

text \<open>The callback of \<^verbatim>\<open>conn.shell\<close>: on an error, report it and end the transport; otherwise
  store \<^verbatim>\<open>{ conn, stream }\<close> over whatever the registry held for the session and change to
  the initial directory when one other than \<^verbatim>\<open>/home\<close> is given.\<close>

definition ssh_shell_cb :: "string \<Rightarrow> nat \<Rightarrow> string + nat \<Rightarrow> string option \<Rightarrow> server \<Rightarrow> server" where
  "ssh_shell_cb sessionId c res initialPath s =
     (case res of
        Inl err \<Rightarrow> act (ConnEnd c) (act (Emit ''error'' (Text (''Shell error: '' @ err))) s)
      | Inr st \<Rightarrow>
          (let s' = store sessionId \<lparr>conn = c, stream = Some st, sftp = None\<rparr> s
           in case initialPath of
                None \<Rightarrow> s'
              | Some p \<Rightarrow>
                  if p \<noteq> [] \<and> p \<noteq> ''/home''
                  then act (StreamWrite st (''cd '' @ p @ [CHR 0x0A])) s'
                  else s'))"

text \<open>The listeners of the shell stream: output, error output and \<^verbatim>\<open>close\<close>.\<close>

definition ssh_stream_data :: "string \<Rightarrow> server \<Rightarrow> server" where
  "ssh_stream_data d s = act (Emit ''response'' (Text d)) s"

definition ssh_stream_stderr :: "string \<Rightarrow> server \<Rightarrow> server" where
  "ssh_stream_stderr d s = act (Emit ''error'' (Text d)) s"

definition ssh_stream_close :: "string \<Rightarrow> nat \<Rightarrow> server \<Rightarrow> server" where
  "ssh_stream_close sessionId c s =
     (let s' = act (Emit ''message'' (Text ''SSH connection closed by server'')) s
      in case sshConnections s' sessionId of
           None \<Rightarrow> s'
         | Some e \<Rightarrow> delete_entry sessionId (act (ConnEnd c) s'))"

text \<open>\<^verbatim>\<open>conn.on('error', ...)\<close> and \<^verbatim>\<open>conn.on('close', ...)\<close>.\<close>

definition ssh_conn_error :: "string \<Rightarrow> server \<Rightarrow> server" where
  "ssh_conn_error err s = act (Emit ''error'' (Text (''Connection error: '' @ err))) s"

definition ssh_conn_close :: "string \<Rightarrow> server \<Rightarrow> server" where
  "ssh_conn_close sessionId s =
     (let s' = act (Emit ''message'' (Text ''Connection closed'')) s
      in case sshConnections s' sessionId of
           None \<Rightarrow> s'
         | Some e \<Rightarrow> delete_entry sessionId s')"

subsection \<open>\<^verbatim>\<open>connect-sftp\<close>\<close>

definition sftp_ready :: "nat \<Rightarrow> server \<Rightarrow> server" where
  "sftp_ready c s =
     act (SftpOpen c)
       (act (Emit ''message'' (Text ''SSH connection established. Initializing SFTP session...'')) s)"

definition sftp_cb :: "string \<Rightarrow> nat \<Rightarrow> string + nat \<Rightarrow> string option \<Rightarrow> server \<Rightarrow> server" where
  "sftp_cb sessionId c res initialPath s =
     (case res of
        Inl err \<Rightarrow> act (ConnEnd c) (act (Emit ''sftp-error'' (Text (''SFTP error: '' @ err))) s)
      | Inr sf \<Rightarrow>
          act (Emit ''message'' (Text ''SFTP session ready.''))
            (act (Emit ''sftp-connected'' (InitialPath initialPath))
               (store sessionId \<lparr>conn = c, stream = None, sftp = Some sf\<rparr> s)))"

definition sftp_conn_error :: "string \<Rightarrow> server \<Rightarrow> server" where
  "sftp_conn_error err s = act (Emit ''sftp-error'' (Text (''Connection error: '' @ err))) s"

definition sftp_conn_close :: "string \<Rightarrow> server \<Rightarrow> server" where
  "sftp_conn_close sessionId s =
     (case sshConnections s sessionId of
        None \<Rightarrow> s
      | Some e \<Rightarrow> delete_entry sessionId s)"

subsection \<open>Teardown\<close>

text \<open>\<^verbatim>\<open>socket.on('disconnect', ...)\<close>: end the transport of the entry and delete the entry.\<close>

definition socket_disconnect :: "string \<Rightarrow> server \<Rightarrow> server" where
  "socket_disconnect sessionId s =
     (case sshConnections s sessionId of
        None \<Rightarrow> s
      | Some e \<Rightarrow> delete_entry sessionId (act (ConnEnd (conn e)) s))"

text \<open>\<^verbatim>\<open>app.get('/logout', ...)\<close> and \<^verbatim>\<open>app.get('/disconnect', isAuthenticated, ...)\<close> call
  \<^verbatim>\<open>sshConnections[sessionId].end()\<close>. The entry is \<^verbatim>\<open>{ conn, stream }\<close> or
  \<^verbatim>\<open>{ conn, sftp }\<close> and has no \<^verbatim>\<open>end\<close>, so the call throws before the entry is
  deleted and before the redirect.\<close>

datatype js_error = TypeError string

definition logout :: "string \<Rightarrow> server \<Rightarrow> js_error + server" where
  "logout sessionId s =
     (case sshConnections s sessionId of
        None \<Rightarrow> Inr (act (Redirect ''/login'') s)
      | Some e \<Rightarrow> Inl (TypeError ''sshConnections[sessionId].end is not a function''))"

definition disconnect_route :: "bool \<Rightarrow> string \<Rightarrow> server \<Rightarrow> js_error + server" where
  "disconnect_route authenticated sessionId s =
     (if \<not> authenticated then Inr (act (Redirect ''/login'') s)
      else
        (case sshConnections s sessionId of
           None \<Rightarrow> Inr (act (Redirect ''/'') s)
         | Some e \<Rightarrow> Inl (TypeError ''sshConnections[sessionId].end is not a function'')))"

subsection \<open>Runs\<close>

text \<open>What can happen to the process, each with the session identifier of the socket (or of
  the HTTP session) whose listener it reaches.\<close>

datatype event =
    SshReady string nat
  | SshShellCb string nat "string + nat" "string option"
  | SshStreamData string string
  | SshStreamStderr string string
  | SshStreamClose string nat
  | SshConnError string string
  | SshConnClose string
  | SftpReady string nat
  | SftpCb string nat "string + nat" "string option"
  | SftpConnError string string
  | SftpConnClose string
  | SocketDisconnect string
  | Logout string
  | DisconnectRoute bool string

text \<open>An exception leaves the state as it was when it was thrown.\<close>

definition caught :: "server \<Rightarrow> js_error + server \<Rightarrow> server" where
  "caught s r = (case r of Inl e \<Rightarrow> s | Inr s' \<Rightarrow> s')"

fun step :: "server \<Rightarrow> event \<Rightarrow> server" where
  "step s (SshReady sid c) = ssh_ready c s"
| "step s (SshShellCb sid c res ip) = ssh_shell_cb sid c res ip s"
| "step s (SshStreamData sid d) = ssh_stream_data d s"
| "step s (SshStreamStderr sid d) = ssh_stream_stderr d s"
| "step s (SshStreamClose sid c) = ssh_stream_close sid c s"
| "step s (SshConnError sid err) = ssh_conn_error err s"
| "step s (SshConnClose sid) = ssh_conn_close sid s"
| "step s (SftpReady sid c) = sftp_ready c s"
| "step s (SftpCb sid c res ip) = sftp_cb sid c res ip s"
| "step s (SftpConnError sid err) = sftp_conn_error err s"
| "step s (SftpConnClose sid) = sftp_conn_close sid s"
| "step s (SocketDisconnect sid) = socket_disconnect sid s"
| "step s (Logout sid) = caught s (logout sid s)"
| "step s (DisconnectRoute a sid) = caught s (disconnect_route a sid s)"

definition init :: server where
  "init = \<lparr>sshConnections = (\<lambda>k. None), log = []\<rparr>"

definition run :: "event list \<Rightarrow> server" where
  "run es = foldl step init es"

section \<open>Reading a trace\<close>

fun is_emit :: "string \<Rightarrow> action \<Rightarrow> bool" where
  "is_emit n (Emit m p) = (m = n)"
| "is_emit n _ = False"

fun is_exec :: "action \<Rightarrow> bool" where
  "is_exec (Exec c cmd) = True"
| "is_exec _ = False"

definition emits :: "string \<Rightarrow> action list \<Rightarrow> bool" where
  "emits n tr = list_ex (is_emit n) tr"

definition execs :: "action list \<Rightarrow> action list" where
  "execs tr = filter is_exec tr"

text \<open>The text the listeners have collected when the stream closes.\<close>

fun stdout_text :: "stream_event list \<Rightarrow> string" where
  "stdout_text [] = []"
| "stdout_text (Data d # es) = d @ stdout_text es"
| "stdout_text (StderrData d # es) = stdout_text es"
| "stdout_text (Close code # es) = []"

fun stderr_text :: "stream_event list \<Rightarrow> string" where
  "stderr_text [] = []"
| "stderr_text (Data d # es) = stderr_text es"
| "stderr_text (StderrData d # es) = d @ stderr_text es"
| "stderr_text (Close code # es) = []"

fun exit_code :: "stream_event list \<Rightarrow> int option option" where
  "exit_code [] = None"
| "exit_code (Close code # es) = Some code"
| "exit_code (e # es) = exit_code es"

text \<open>The merged failure rule in the words of the specification: a shell command has
  failed when its exit code is not zero or its standard output contains the sentinel.\<close>

definition shell_failed :: "int option \<Rightarrow> string \<Rightarrow> string \<Rightarrow> bool" where
  "shell_failed code out sentinel \<longleftrightarrow> code \<noteq> Some 0 \<or> str_includes out sentinel"

definition reg0 :: registry where
  "reg0 = (\<lambda>k. None)(''s1'' := Some \<lparr>conn = 1, stream = None, sftp = Some 2\<rparr>)"

text \<open>The notifications of a trace, in order.\<close>

fun is_notification :: "action \<Rightarrow> bool" where
  "is_notification (Emit n p) = True"
| "is_notification _ = False"

definition notifications :: "action list \<Rightarrow> action list" where
  "notifications tr = filter is_notification tr"

text \<open>The fallback rule in the words of the specification: exactly one shell command is
  issued, and nothing is reported to the client before it.\<close>

definition one_fallback_first :: "action list \<Rightarrow> bool" where
  "one_fallback_first tr \<longleftrightarrow>
     length (execs tr) = 1 \<and> notifications (takeWhile (\<lambda>a. \<not> is_exec a) tr) = []"

text \<open>The texts of the \<^verbatim>\<open>sftp-error\<close> notifications of a trace.\<close>

fun error_texts :: "action list \<Rightarrow> string list" where
  "error_texts [] = []"
| "error_texts (Emit n (Text t) # tr) =
     (if n = ''sftp-error'' then t # error_texts tr else error_texts tr)"
| "error_texts (a # tr) = error_texts tr"

text \<open>The combined diagnostic in the words of the specification: one error notification
  whose text contains both the message of the SFTP error and the standard error of the
  command.\<close>

definition combined :: "string \<Rightarrow> string \<Rightarrow> action list \<Rightarrow> bool" where
  "combined err errorOutput tr \<longleftrightarrow>
     (case error_texts tr of
        [t] \<Rightarrow> str_includes t err \<and> str_includes t errorOutput
      | _ \<Rightarrow> False)"

text \<open>How \<^verbatim>\<open>sh\<close> reads a command line as far as double quotes and backslashes go: a
  backslash takes the next character with it, a double quote opens or closes a quoted
  word, and a semicolon outside a quoted word ends a command. The number of such
  semicolons is counted; \<open>inq\<close> says whether a quoted word is open.\<close>

fun top_level_semicolons :: "bool \<Rightarrow> string \<Rightarrow> nat" where
  "top_level_semicolons inq [] = 0"
| "top_level_semicolons inq [c] = (if c = CHR '';'' \<and> \<not> inq then 1 else 0)"
| "top_level_semicolons inq (c # d # cs) =
     (if c = CHR 0x5C then top_level_semicolons inq cs
      else if c = CHR 0x22 then top_level_semicolons (\<not> inq) (d # cs)
      else if c = CHR '';'' \<and> \<not> inq then Suc (top_level_semicolons inq (d # cs))
      else top_level_semicolons inq (d # cs))"

text \<open>The commands of a trace.\<close>

fun commands :: "action list \<Rightarrow> string list" where
  "commands [] = []"
| "commands (Exec c cmd # tr) = cmd # commands tr"
| "commands (a # tr) = commands tr"

text \<open>The transports a trace has ended.\<close>

fun ended :: "action list \<Rightarrow> nat list" where
  "ended [] = []"
| "ended (ConnEnd c # tr) = c # ended tr"
| "ended (a # tr) = ended tr"

text \<open>An entry holds a shell stream or an SFTP session, not both and not neither.\<close>

definition one_kind :: "entry \<Rightarrow> bool" where
  "one_kind e \<longleftrightarrow> (stream e = None) \<noteq> (sftp e = None)"

text \<open>The events that put an entry into the registry: a shell or an SFTP session that was
  opened without an error, which the transport only attempts once it is ready.\<close>

fun registers :: "string \<Rightarrow> entry \<Rightarrow> event \<Rightarrow> bool" where
  "registers k e (SshShellCb sid c (Inr st) ip) =
     (sid = k \<and> e = \<lparr>conn = c, stream = Some st, sftp = None\<rparr>)"
| "registers k e (SftpCb sid c (Inr sf) ip) =
     (sid = k \<and> e = \<lparr>conn = c, stream = None, sftp = Some sf\<rparr>)"
| "registers k e ev = False"

text \<open>The path of the specification's injection test.\<close>

definition evil_path :: string where
  \<open>evil_path = ''a"; touch /tmp/pwned; echo "b''\<close>

text \<open>The registry of a process that has just started.\<close>

definition init_reg :: registry where
  "init_reg = (\<lambda>k. None)"

text \<open>The requests for the mode of a file.\<close>

fun is_stat :: "action \<Rightarrow> bool" where
  "is_stat (Sftp sf (Stat p)) = True"
| "is_stat a = False"

text \<open>A file content that closes the here-document of the \<^verbatim>\<open>save-file\<close> command early and
  opens one of its own, into which the rest of the command falls.\<close>

definition crafted_content :: string where
  "crafted_content = ''hello'' @ [CHR 0x0A] @ ''SFTPEOF'' @ [CHR 0x0A] @ '': << X''"

section \<open>Collected output\<close>

lemma collect_acc:
  "collect evs out err =
     map_option (\<lambda>code. (code, out @ stdout_text evs, err @ stderr_text evs)) (exit_code evs)"
  by (induction evs out err rule: collect.induct) simp_all

lemma collect_closed:
  "exit_code evs = Some code \<Longrightarrow>
   collect evs [] [] = Some (code, stdout_text evs, stderr_text evs)"
  by (simp add: collect_acc)

lemma exec_cb_closed:
  "exit_code evs = Some code \<Longrightarrow>
   exec_cb (ExecStream evs) on_err on_close = on_close code (stdout_text evs) (stderr_text evs)"
  by (simp add: exec_cb_def collect_closed)

section \<open>What the fallback handlers do once the shell stream has closed\<close>

lemma sftp_of_reg0: "sftp_of reg0 ''s1'' = Some (1, 2)"
  by (simp add: sftp_of_def reg0_def)

lemma delete_file_closed:
  assumes "sftp_of reg sessionId = Some (c, sf)" and "exit_code evs = Some code"
  shows \<open>delete_file reg sessionId path isDirectory (Some err) (ExecStream evs) =
     [Sftp sf (if isDirectory then Rmdir path else Unlink path),
      Exec c ((if isDirectory then ''rm -rf "'' else ''rm "'') @ replace_dq path
              @ ''" || echo "RM_FAILED"''),
      if code \<noteq> Some 0 \<or> str_includes (stdout_text evs) ''RM_FAILED''
      then Emit ''sftp-error''
             (Text ((if isDirectory then ''Failed to delete directory with rm command: ''
                     else ''Failed to delete file with rm command: '') @ stderr_text evs))
      else Emit ''delete-complete'' NoPayload]\<close>
  using assms by (simp add: delete_file_def exec_cb_closed)

lemma rename_file_closed:
  assumes "sftp_of reg sessionId = Some (c, sf)" and "exit_code evs = Some code"
  shows \<open>rename_file reg sessionId oldPath newPath (Some err) (ExecStream evs) =
     [Sftp sf (Rename oldPath newPath),
      Exec c (''mv "'' @ replace_dq oldPath @ ''" "'' @ replace_dq newPath
              @ ''" || echo "MV_FAILED"''),
      if code \<noteq> Some 0 \<or> str_includes (stdout_text evs) ''MV_FAILED''
      then Emit ''sftp-error'' (Text (''Failed to rename with mv command: '' @ stderr_text evs))
      else Emit ''rename-complete'' NoPayload]\<close>
  using assms by (simp add: rename_file_def exec_cb_closed)

lemma create_folder_closed:
  assumes "sftp_of reg sessionId = Some (c, sf)" and "exit_code evs = Some code"
  shows \<open>create_folder reg sessionId path (Some err) (ExecStream evs) =
     [Sftp sf (Mkdir path),
      Exec c (''mkdir -p "'' @ replace_dq path @ ''" || echo "MKDIR_FAILED"''),
      if code \<noteq> Some 0 \<or> str_includes (stdout_text evs) ''MKDIR_FAILED''
      then Emit ''sftp-error''
             (Text (''Failed to create folder with mkdir command: '' @ stderr_text evs))
      else Emit ''folder-created'' NoPayload]\<close>
  using assms by (simp add: create_folder_def exec_cb_closed)

lemma zip_directory_first_ok:
  assumes "sftp_of reg sessionId = Some (c, sf)" and "exit_code evs = Some code"
    and "\<not> (code \<noteq> Some 0 \<or> str_includes (stdout_text evs) ''ZIP_FAILED'')"
  shows "\<exists>cmd zipPath. zip_directory reg sessionId path timestamp (ExecStream evs) shell2 =
     [Emit ''zip-started'' (PathMessage path ''Creating zip file...''), Exec c cmd,
      Emit ''zip-complete'' (PathOnly zipPath)]"
  using assms by (simp add: zip_directory_def exec_cb_closed Let_def)

lemma zip_directory_retry:
  assumes "sftp_of reg sessionId = Some (c, sf)" and "exit_code evs = Some code"
    and "code \<noteq> Some 0 \<or> str_includes (stdout_text evs) ''ZIP_FAILED''"
    and "exit_code evs2 = Some sudoCode"
  shows "\<exists>cmd cmd2 finalZipPath. zip_directory reg sessionId path timestamp (ExecStream evs) (ExecStream evs2) =
     [Emit ''zip-started'' (PathMessage path ''Creating zip file...''), Exec c cmd, Exec c cmd2,
      if sudoCode \<noteq> Some 0 \<or> str_includes (stdout_text evs2) ''TEMP_ZIP_FAILED''
      then Emit ''sftp-error'' (Text (''Failed to create zip file: '' @ stderr_text evs))
      else Emit ''zip-complete'' (PathOnly finalZipPath)]"
  using assms by (auto simp add: zip_directory_def exec_cb_closed Let_def)

section \<open>Shapes of the fallback traces\<close>

lemma read_events_data:
  "read_events c path shell (map RsData chunks @ es) content =
   read_events c path shell es (content @ concat chunks)"
  by (induction chunks arbitrary: content) simp_all

lemma read_file_closed:
  assumes "sftp_of reg sessionId = Some (c, sf)" and "exit_code evs = Some code"
  shows \<open>read_file reg sessionId path (ReadStream (map RsData chunks @ [RsError err])) (ExecStream evs) =
     [Sftp sf (CreateReadStream path),
      Exec c (''cat "'' @ replace_dq path @ ''"''),
      if code \<noteq> Some 0
      then Emit ''sftp-error'' (Text (''Failed to read file with cat command: '' @ stderr_text evs))
      else Emit ''file-content'' (PathContent path (stdout_text evs))]\<close>
  using assms by (simp add: read_file_def read_events_data exec_cb_closed)

lemma save_events_closes:
  "set rest \<subseteq> {WsClose} \<Longrightarrow>
   save_events c path content timestamp rest =
     replicate (length rest) (Emit ''file-saved'' (PathOnly path))"
  by (induction rest) auto

lemma save_callbacks_closes: "set rest \<subseteq> {WsClose} \<Longrightarrow> save_callbacks path shell rest = []"
  by (induction rest) auto

lemma save_file_closed:
  assumes "sftp_of reg sessionId = Some (c, sf)" and "exit_code evs = Some code"
    and "set rest \<subseteq> {WsClose}"
  shows \<open>save_file reg sessionId path content st (WsError err # rest) (ExecStream evs) timestamp =
     [Sftp sf (Stat path),
      Sftp sf (CreateWriteStream path (case st of Stats m \<Rightarrow> m | _ \<Rightarrow> 420)),
      Sftp sf (WriteEnd content),
      Exec c (save_command timestamp path content)]
     @ replicate (length rest) (Emit ''file-saved'' (PathOnly path))
     @ [if code \<noteq> Some 0 \<or> str_includes (stdout_text evs) ''WRITE_FAILED''
        then Emit ''sftp-error'' (Text (''Failed to save file with shell command: '' @ stderr_text evs))
        else Emit ''file-saved'' (PathOnly path)]\<close>
  using assms
  by (simp add: save_file_def exec_cb_closed save_events_closes save_callbacks_closes)

lemma exec_cb_error: "exec_cb (ExecError m) on_err on_close = on_err m"
  by (simp add: exec_cb_def)

lemma exec_cb_shape:
  assumes "\<And>m. \<exists>n p. on_err m = [Emit n p]"
    and "\<And>code out err. \<exists>n p. on_close code out err = [Emit n p]"
  shows "exec_cb shell on_err on_close = [] \<or> (\<exists>n p. exec_cb shell on_err on_close = [Emit n p])"
proof (cases shell)
  case (ExecError m)
  then show ?thesis using assms(1) [of m] by (simp add: exec_cb_def)
next
  case (ExecStream evs)
  show ?thesis
  proof (cases "collect evs [] []")
    case None
    with ExecStream show ?thesis by (simp add: exec_cb_def)
  next
    case (Some r)
    obtain code out err where "r = (code, out, err)" by (cases r) auto
    with Some ExecStream show ?thesis using assms(2) [of code out err] by (simp add: exec_cb_def)
  qed
qed

lemma one_fallback_firstI:
  assumes "list_all (\<lambda>a. \<not> is_exec a \<and> \<not> is_notification a) pre"
    and "rest = [] \<or> (\<exists>n p. rest = [Emit n p])"
  shows "one_fallback_first (pre @ Exec c cmd # rest) \<and> length (notifications (pre @ Exec c cmd # rest)) \<le> 1"
proof -
  from assms(1) have a: "filter is_exec pre = []" and b: "filter is_notification pre = []"
    and t: "takeWhile (\<lambda>a. \<not> is_exec a) (pre @ Exec c cmd # rest) = pre"
    by (induction pre) auto
  from assms(2) have "filter is_exec rest = []" and "length (filter is_notification rest) \<le> 1"
    by auto
  with a b t show ?thesis
    by (simp add: one_fallback_first_def execs_def notifications_def)
qed

lemma delete_file_one_fallback:
  assumes "sftp_of reg sessionId = Some (c, sf)"
  shows "one_fallback_first (delete_file reg sessionId path isDirectory (Some err) shell)
    \<and> length (notifications (delete_file reg sessionId path isDirectory (Some err) shell)) \<le> 1"
proof (cases isDirectory)
  case True
  show ?thesis
    using assms True
    by (simp add: delete_file_def)
       (rule one_fallback_firstI [of "[Sftp sf (Rmdir path)]", simplified], rule exec_cb_shape, auto)
next
  case False
  show ?thesis
    using assms False
    by (simp add: delete_file_def)
       (rule one_fallback_firstI [of "[Sftp sf (Unlink path)]", simplified], rule exec_cb_shape, auto)
qed

lemma rename_file_one_fallback:
  assumes "sftp_of reg sessionId = Some (c, sf)"
  shows "one_fallback_first (rename_file reg sessionId oldPath newPath (Some err) shell)
    \<and> length (notifications (rename_file reg sessionId oldPath newPath (Some err) shell)) \<le> 1"
  using assms
  by (simp add: rename_file_def)
     (rule one_fallback_firstI [of "[Sftp sf (Rename oldPath newPath)]", simplified], rule exec_cb_shape, auto)

lemma create_folder_one_fallback:
  assumes "sftp_of reg sessionId = Some (c, sf)"
  shows "one_fallback_first (create_folder reg sessionId path (Some err) shell)
    \<and> length (notifications (create_folder reg sessionId path (Some err) shell)) \<le> 1"
  using assms
  by (simp add: create_folder_def)
     (rule one_fallback_firstI [of "[Sftp sf (Mkdir path)]", simplified], rule exec_cb_shape, auto)

lemma read_file_one_fallback:
  assumes "sftp_of reg sessionId = Some (c, sf)"
  shows "one_fallback_first (read_file reg sessionId path (ReadStream (map RsData chunks @ [RsError err])) shell)
    \<and> length (notifications (read_file reg sessionId path (ReadStream (map RsData chunks @ [RsError err])) shell)) \<le> 1"
  using assms
  by (simp add: read_file_def read_events_data)
     (rule one_fallback_firstI [of "[Sftp sf (CreateReadStream path)]", simplified], rule exec_cb_shape, auto)

lemma one_fallback_first_only:
  assumes "list_all (\<lambda>a. \<not> is_exec a \<and> \<not> is_notification a) pre"
    and "filter is_exec rest = []"
  shows "one_fallback_first (pre @ Exec c cmd # rest)"
proof -
  from assms(1) have "filter is_exec pre = []" and "filter is_notification pre = []"
    and "takeWhile (\<lambda>a. \<not> is_exec a) (pre @ Exec c cmd # rest) = pre"
    by (induction pre) auto
  with assms(2) show ?thesis
    by (simp add: one_fallback_first_def execs_def notifications_def)
qed

lemma save_file_one_fallback:
  assumes "sftp_of reg sessionId = Some (c, sf)" and "set rest \<subseteq> {WsClose}"
  shows "one_fallback_first
           (save_file reg sessionId path content st (WsError err # rest) shell timestamp)"
proof -
  let ?pre = "[Sftp sf (Stat path),
               Sftp sf (CreateWriteStream path (case st of Stats m \<Rightarrow> m | _ \<Rightarrow> 420)),
               Sftp sf (WriteEnd content)]"
  let ?cb = "save_callbacks path shell [WsError err]"
  let ?tail = "replicate (length rest) (Emit ''file-saved'' (PathOnly path)) @ ?cb"
  have "?cb = [] \<or> (\<exists>n p. ?cb = [Emit n p])"
    by simp (rule exec_cb_shape, auto)
  then have "filter is_exec ?cb = []" by auto
  then have tail: "filter is_exec ?tail = []" by simp
  have pre: "list_all (\<lambda>a. \<not> is_exec a \<and> \<not> is_notification a) ?pre" by simp
  have "one_fallback_first (?pre @ Exec c (save_command timestamp path content) # ?tail)"
    by (rule one_fallback_first_only [OF pre tail])
  moreover have "save_file reg sessionId path content st (WsError err # rest) shell timestamp =
      ?pre @ Exec c (save_command timestamp path content) # ?tail"
    using assms by (simp add: save_file_def save_events_closes save_callbacks_closes)
  ultimately show ?thesis by simp
qed

text \<open>When the write stream of \<^verbatim>\<open>save-file\<close> reports an error and then closes, the client
  is sent \<^verbatim>\<open>file-saved\<close> by the \<^verbatim>\<open>close\<close> listener, whatever the command does.\<close>

lemma save_file_saved_after_error:
  assumes "sftp_of reg sessionId = Some (c, sf)"
  shows "take 5 (save_file reg sessionId path content st (WsError err # WsClose # rest) shell timestamp) =
     [Sftp sf (Stat path),
      Sftp sf (CreateWriteStream path (case st of Stats m \<Rightarrow> m | _ \<Rightarrow> 420)),
      Sftp sf (WriteEnd content),
      Exec c (save_command timestamp path content),
      Emit ''file-saved'' (PathOnly path)]"
  using assms by (simp add: save_file_def)

section \<open>The merged failure rule\<close>

text \<open>
  C1. When the shell command of \<^verbatim>\<open>delete-file\<close>, \<^verbatim>\<open>rename-file\<close>, \<^verbatim>\<open>create-folder\<close> or
  \<^verbatim>\<open>zip-directory\<close> has run and its stream has closed, the handler reports a failure
  exactly when the exit code is not zero or the collected standard output contains the
  sentinel of the command (\<^verbatim>\<open>RM_FAILED\<close>, \<^verbatim>\<open>MV_FAILED\<close>, \<^verbatim>\<open>MKDIR_FAILED\<close>,
  \<^verbatim>\<open>ZIP_FAILED\<close>); otherwise, and only then, it emits the success notification of the
  operation. For \<^verbatim>\<open>zip-directory\<close> a failure of the first command is what starts the
  second command, which is judged in the same way with its own sentinel
  \<^verbatim>\<open>TEMP_ZIP_FAILED\<close>.
\<close>

theorem sentinel_or_exit_code:
  assumes "sftp_of reg sessionId = Some (c, sf)" and "exit_code evs = Some code"
  shows "(emits ''sftp-error'' (delete_file reg sessionId path isDirectory (Some err) (ExecStream evs))
           \<longleftrightarrow> shell_failed code (stdout_text evs) ''RM_FAILED'')
    \<and> (emits ''delete-complete'' (delete_file reg sessionId path isDirectory (Some err) (ExecStream evs))
           \<longleftrightarrow> \<not> shell_failed code (stdout_text evs) ''RM_FAILED'')
    \<and> (emits ''sftp-error'' (rename_file reg sessionId oldPath newPath (Some err) (ExecStream evs))
           \<longleftrightarrow> shell_failed code (stdout_text evs) ''MV_FAILED'')
    \<and> (emits ''rename-complete'' (rename_file reg sessionId oldPath newPath (Some err) (ExecStream evs))
           \<longleftrightarrow> \<not> shell_failed code (stdout_text evs) ''MV_FAILED'')
    \<and> (emits ''sftp-error'' (create_folder reg sessionId path (Some err) (ExecStream evs))
           \<longleftrightarrow> shell_failed code (stdout_text evs) ''MKDIR_FAILED'')
    \<and> (emits ''folder-created'' (create_folder reg sessionId path (Some err) (ExecStream evs))
           \<longleftrightarrow> \<not> shell_failed code (stdout_text evs) ''MKDIR_FAILED'')
    \<and> (length (execs (zip_directory reg sessionId path timestamp (ExecStream evs) shell2)) = 2
           \<longleftrightarrow> shell_failed code (stdout_text evs) ''ZIP_FAILED'')
    \<and> (\<not> shell_failed code (stdout_text evs) ''ZIP_FAILED'' \<longrightarrow>
           emits ''zip-complete'' (zip_directory reg sessionId path timestamp (ExecStream evs) shell2)
           \<and> \<not> emits ''sftp-error'' (zip_directory reg sessionId path timestamp (ExecStream evs) shell2))
    \<and> (shell_failed code (stdout_text evs) ''ZIP_FAILED'' \<and> exit_code evs2 = Some sudoCode \<longrightarrow>
           (emits ''sftp-error'' (zip_directory reg sessionId path timestamp (ExecStream evs) (ExecStream evs2))
              \<longleftrightarrow> shell_failed sudoCode (stdout_text evs2) ''TEMP_ZIP_FAILED'')
           \<and> (emits ''zip-complete'' (zip_directory reg sessionId path timestamp (ExecStream evs) (ExecStream evs2))
              \<longleftrightarrow> \<not> shell_failed sudoCode (stdout_text evs2) ''TEMP_ZIP_FAILED''))"
proof -
  note [simp] = emits_def shell_failed_def
  have del: "(emits ''sftp-error'' (delete_file reg sessionId path isDirectory (Some err) (ExecStream evs))
           \<longleftrightarrow> shell_failed code (stdout_text evs) ''RM_FAILED'')
    \<and> (emits ''delete-complete'' (delete_file reg sessionId path isDirectory (Some err) (ExecStream evs))
           \<longleftrightarrow> \<not> shell_failed code (stdout_text evs) ''RM_FAILED'')"
    by (simp add: delete_file_closed [OF assms])
  have ren: "(emits ''sftp-error'' (rename_file reg sessionId oldPath newPath (Some err) (ExecStream evs))
           \<longleftrightarrow> shell_failed code (stdout_text evs) ''MV_FAILED'')
    \<and> (emits ''rename-complete'' (rename_file reg sessionId oldPath newPath (Some err) (ExecStream evs))
           \<longleftrightarrow> \<not> shell_failed code (stdout_text evs) ''MV_FAILED'')"
    by (simp add: rename_file_closed [OF assms])
  have mk: "(emits ''sftp-error'' (create_folder reg sessionId path (Some err) (ExecStream evs))
           \<longleftrightarrow> shell_failed code (stdout_text evs) ''MKDIR_FAILED'')
    \<and> (emits ''folder-created'' (create_folder reg sessionId path (Some err) (ExecStream evs))
           \<longleftrightarrow> \<not> shell_failed code (stdout_text evs) ''MKDIR_FAILED'')"
    by (simp add: create_folder_closed [OF assms])
  have z1: "length (execs (zip_directory reg sessionId path timestamp (ExecStream evs) shell2)) = 2
           \<longleftrightarrow> shell_failed code (stdout_text evs) ''ZIP_FAILED''"
    using assms
    by (cases shell2)
       (auto simp add: zip_directory_def exec_cb_def collect_acc Let_def execs_def
             split: option.splits)
  have z2: "\<not> shell_failed code (stdout_text evs) ''ZIP_FAILED'' \<longrightarrow>
           emits ''zip-complete'' (zip_directory reg sessionId path timestamp (ExecStream evs) shell2)
           \<and> \<not> emits ''sftp-error'' (zip_directory reg sessionId path timestamp (ExecStream evs) shell2)"
    using assms by (simp add: zip_directory_def exec_cb_closed Let_def)
  have z3: "shell_failed code (stdout_text evs) ''ZIP_FAILED'' \<and> exit_code evs2 = Some sudoCode \<longrightarrow>
           (emits ''sftp-error'' (zip_directory reg sessionId path timestamp (ExecStream evs) (ExecStream evs2))
              \<longleftrightarrow> shell_failed sudoCode (stdout_text evs2) ''TEMP_ZIP_FAILED'')
           \<and> (emits ''zip-complete'' (zip_directory reg sessionId path timestamp (ExecStream evs) (ExecStream evs2))
              \<longleftrightarrow> \<not> shell_failed sudoCode (stdout_text evs2) ''TEMP_ZIP_FAILED'')"
    using assms by (auto simp add: zip_directory_def exec_cb_closed Let_def)
  from del ren mk z1 z2 z3 show ?thesis by blast
qed

theorem sentinel_or_exit_code_witness:
  "sftp_of reg0 ''s1'' = Some (1, 2)
   \<and> exit_code [Data ''xRM_'', StderrData ''e'', Data ''FAILEDy'', Close (Some 0)] = Some (Some 0)
   \<and> shell_failed (Some 0) (stdout_text [Data ''xRM_'', StderrData ''e'', Data ''FAILEDy'', Close (Some 0)]) ''RM_FAILED''
   \<and> emits ''sftp-error'' (delete_file reg0 ''s1'' ''/srv/a'' False (Some ''EACCES'')
        (ExecStream [Data ''xRM_'', StderrData ''e'', Data ''FAILEDy'', Close (Some 0)]))
   \<and> \<not> shell_failed (Some 0) (stdout_text [Data ''xRM_'', StderrData ''e'', Data ''FAILEDy'', Close (Some 0)]) ''MV_FAILED''
   \<and> emits ''rename-complete'' (rename_file reg0 ''s1'' ''/srv/a'' ''/srv/b'' (Some ''EACCES'')
        (ExecStream [Data ''xRM_'', StderrData ''e'', Data ''FAILEDy'', Close (Some 0)]))"
proof -
  have h1: "sftp_of reg0 ''s1'' = Some (1, 2)" by (rule sftp_of_reg0)
  have h2: "exit_code [Data ''xRM_'', StderrData ''e'', Data ''FAILEDy'', Close (Some 0)] = Some (Some 0)"
    by simp
  have f1: "shell_failed (Some 0) (stdout_text [Data ''xRM_'', StderrData ''e'', Data ''FAILEDy'', Close (Some 0)]) ''RM_FAILED''"
    by (simp add: shell_failed_def str_includes_def) code_simp
  have f2: "\<not> shell_failed (Some 0) (stdout_text [Data ''xRM_'', StderrData ''e'', Data ''FAILEDy'', Close (Some 0)]) ''MV_FAILED''"
    by (simp add: shell_failed_def str_includes_def) code_simp
  from sentinel_or_exit_code [OF h1 h2, where path = "''/srv/a''" and isDirectory = False
      and err = "''EACCES''" and oldPath = "''/srv/a''" and newPath = "''/srv/b''"] h1 h2 f1 f2
  show ?thesis by blast
qed

section \<open>One fallback, and where there is none\<close>

lemma upload_events_no_command: "execs (upload_events ws) = []"
  by (induction ws rule: upload_events.induct) (simp_all add: execs_def)

text \<open>\<^verbatim>\<open>upload-file\<close> never runs a command, whatever its write stream does: an error of
  the stream is reported at once, followed by the announcement of a retry that does not
  take place.\<close>

lemma upload_file_no_command: "execs (upload_file reg sessionId path fileData ws) = []"
  using upload_events_no_command [of ws]
  by (simp add: upload_file_def no_sftp_def execs_def split: option.splits)

lemma upload_file_error:
  "sftp_of reg sessionId = Some (c, sf) \<Longrightarrow>
   upload_file reg sessionId path fileData [WsError err] =
     [Sftp sf (CreateWriteStream path 420), Sftp sf (WriteEnd fileData),
      Emit ''sftp-error'' (Text (''Upload failed: '' @ err)),
      Emit ''message'' (Text ''Retrying upload with alternate method...'')]"
  by (simp add: upload_file_def)

lemma upload_file_error_then_close:
  "sftp_of reg sessionId = Some (c, sf) \<Longrightarrow>
   upload_file reg sessionId path fileData [WsError err, WsClose] =
     [Sftp sf (CreateWriteStream path 420), Sftp sf (WriteEnd fileData),
      Emit ''sftp-error'' (Text (''Upload failed: '' @ err)),
      Emit ''message'' (Text ''Retrying upload with alternate method...''),
      Emit ''upload-complete'' NoPayload]"
  by (simp add: upload_file_def)

text \<open>
  C3, as stated, does not hold: \<^verbatim>\<open>list-directory\<close> is a file operation whose SFTP call
  can fail, and its handler reports that failure to the client without running any
  command.
\<close>

theorem list_directory_reports_without_fallback:
  "list_directory reg0 ''s1'' ''/srv'' (Inl ''Permission denied'') =
     [Sftp 2 (Readdir ''/srv''),
      Emit ''sftp-error'' (Text ''Failed to read directory: Permission denied'')]
   \<and> \<not> one_fallback_first (list_directory reg0 ''s1'' ''/srv'' (Inl ''Permission denied''))"
  by (simp add: list_directory_def sftp_of_reg0 one_fallback_first_def execs_def)

text \<open>
  C3, amended. For \<^verbatim>\<open>delete-file\<close>, \<^verbatim>\<open>rename-file\<close>, \<^verbatim>\<open>create-folder\<close>, \<^verbatim>\<open>read-file\<close>
  (when its read stream reports an error) and \<^verbatim>\<open>save-file\<close> (when its write stream
  reports an error, followed or not by \<^verbatim>\<open>close\<close>), a failed SFTP call is followed by
  exactly one shell command, and nothing is reported to the client before that command is
  issued, whatever the command does. For the first four of these handlers at most one
  notification follows the command; how many follow it in \<^verbatim>\<open>save-file\<close> is not part of
  the statement. \<^verbatim>\<open>list-directory\<close> has no fallback: a failed \<^verbatim>\<open>readdir\<close> is reported
  to the client directly.
\<close>

theorem one_fallback_where_present:
  assumes "sftp_of reg sessionId = Some (c, sf)"
  shows "(one_fallback_first (delete_file reg sessionId path isDirectory (Some err) shell)
          \<and> length (notifications (delete_file reg sessionId path isDirectory (Some err) shell)) \<le> 1)
    \<and> (one_fallback_first (rename_file reg sessionId oldPath newPath (Some err) shell)
          \<and> length (notifications (rename_file reg sessionId oldPath newPath (Some err) shell)) \<le> 1)
    \<and> (one_fallback_first (create_folder reg sessionId path (Some err) shell)
          \<and> length (notifications (create_folder reg sessionId path (Some err) shell)) \<le> 1)
    \<and> (one_fallback_first
           (read_file reg sessionId path (ReadStream (map RsData chunks @ [RsError err])) shell)
          \<and> length (notifications
               (read_file reg sessionId path (ReadStream (map RsData chunks @ [RsError err])) shell)) \<le> 1)
    \<and> (set rest \<subseteq> {WsClose} \<longrightarrow>
          one_fallback_first
            (save_file reg sessionId path content st (WsError err # rest) shell timestamp))
    \<and> list_directory reg sessionId path (Inl err) =
         [Sftp sf (Readdir path), Emit ''sftp-error'' (Text (''Failed to read directory: '' @ err))]"
proof -
  have "list_directory reg sessionId path (Inl err) =
         [Sftp sf (Readdir path), Emit ''sftp-error'' (Text (''Failed to read directory: '' @ err))]"
    using assms by (simp add: list_directory_def)
  with delete_file_one_fallback [OF assms, of path isDirectory err shell]
    rename_file_one_fallback [OF assms, of oldPath newPath err shell]
    create_folder_one_fallback [OF assms, of path err shell]
    read_file_one_fallback [OF assms, of path chunks err shell]
    save_file_one_fallback [OF assms, of rest path content st err shell timestamp]
  show ?thesis by blast
qed

theorem one_fallback_where_present_witness:
  "sftp_of reg0 ''s1'' = Some (1, 2)
   \<and> one_fallback_first (delete_file reg0 ''s1'' ''/srv/a'' False (Some ''Permission denied'')
        (ExecStream [StderrData ''rm: cannot remove'', Close (Some 1)]))
   \<and> set [WsClose] \<subseteq> {WsClose}
   \<and> one_fallback_first (save_file reg0 ''s1'' ''/srv/a'' ''text'' NoStats [WsError ''Failure'', WsClose]
        (ExecError ''No response'') ''1700000000000'')
   \<and> list_directory reg0 ''s1'' ''/srv'' (Inl ''Permission denied'') =
        [Sftp 2 (Readdir ''/srv''),
         Emit ''sftp-error'' (Text ''Failed to read directory: Permission denied'')]"
proof -
  have h: "sftp_of reg0 ''s1'' = Some (1, 2)" by (rule sftp_of_reg0)
  from one_fallback_where_present [OF h, where path = "''/srv/a''" and isDirectory = False
      and err = "''Permission denied''"
      and shell = "ExecStream [StderrData ''rm: cannot remove'', Close (Some 1)]"]
    one_fallback_where_present [OF h, where path = "''/srv/a''" and err = "''Failure''"
      and shell = "ExecError ''No response''" and content = "''text''" and st = NoStats
      and timestamp = "''1700000000000''" and rest = "[WsClose]"]
    one_fallback_where_present [OF h, where path = "''/srv''" and err = "''Permission denied''"]
    h
  show ?thesis by simp
qed

section \<open>What the client is told after a fallback\<close>

lemma error_texts_append: "error_texts (xs @ ys) = error_texts xs @ error_texts ys"
  by (induction xs rule: error_texts.induct) simp_all

lemma error_texts_saved:
  "error_texts (replicate n (Emit ''file-saved'' (PathOnly p)) @ tr) = error_texts tr"
  by (induction n) simp_all

lemma notifications_saved:
  "notifications (replicate n (Emit ''file-saved'' (PathOnly p)) @ tr) =
     replicate n (Emit ''file-saved'' (PathOnly p)) @ notifications tr"
  by (induction n) (simp_all add: notifications_def)

text \<open>
  C4, as stated, does not hold: when \<^verbatim>\<open>rename\<close> fails with \<^verbatim>\<open>EPERM\<close> and \<^verbatim>\<open>mv\<close> then
  exits with code 1, the one error notification carries the standard error of \<^verbatim>\<open>mv\<close>
  and not the message of the SFTP error.
\<close>

theorem rename_error_omits_sftp_message:
  "notifications (rename_file reg0 ''s1'' ''/a'' ''/b'' (Some ''EPERM'')
       (ExecStream [StderrData ''mv: cannot move'', Close (Some 1)])) =
     [Emit ''sftp-error'' (Text ''Failed to rename with mv command: mv: cannot move'')]
   \<and> \<not> combined ''EPERM'' ''mv: cannot move''
        (rename_file reg0 ''s1'' ''/a'' ''/b'' (Some ''EPERM'')
           (ExecStream [StderrData ''mv: cannot move'', Close (Some 1)]))"
proof -
  have tr: "rename_file reg0 ''s1'' ''/a'' ''/b'' (Some ''EPERM'')
       (ExecStream [StderrData ''mv: cannot move'', Close (Some 1)]) =
     [Sftp 2 (Rename ''/a'' ''/b''), Exec 1 (''mv '' @ [CHR 0x22] @ ''/a'' @ [CHR 0x22] @ '' ''
        @ [CHR 0x22] @ ''/b'' @ [CHR 0x22] @ '' || echo '' @ [CHR 0x22] @ ''MV_FAILED'' @ [CHR 0x22]),
      Emit ''sftp-error'' (Text ''Failed to rename with mv command: mv: cannot move'')]"
    by (simp add: rename_file_closed [OF sftp_of_reg0])
  have "\<not> str_includes ''Failed to rename with mv command: mv: cannot move'' ''EPERM''"
    unfolding str_includes_def by code_simp
  with tr show ?thesis by (simp add: notifications_def combined_def)
qed

text \<open>
  C4, amended. Whenever both the SFTP call and the shell command that was run in its place
  fail, the client receives exactly one \<^verbatim>\<open>sftp-error\<close> notification, whose text is a
  fixed prefix naming the command followed by the standard error of the command; the
  message of the SFTP error is not part of it. For \<^verbatim>\<open>delete-file\<close>, \<^verbatim>\<open>rename-file\<close>,
  \<^verbatim>\<open>create-folder\<close> and \<^verbatim>\<open>read-file\<close> it is the only notification; what else
  \<^verbatim>\<open>save-file\<close> sends, whose write stream closes after its error, is not part of the
  statement. The message of the SFTP error is reported only when the command could not be
  started, together with the error of starting it.
\<close>

theorem fallback_failure_notification:
  assumes "sftp_of reg sessionId = Some (c, sf)" and "exit_code evs = Some code"
  shows "(shell_failed code (stdout_text evs) ''RM_FAILED'' \<longrightarrow>
            notifications (delete_file reg sessionId path isDirectory (Some err) (ExecStream evs)) =
              [Emit ''sftp-error''
                 (Text ((if isDirectory then ''Failed to delete directory with rm command: ''
                         else ''Failed to delete file with rm command: '') @ stderr_text evs))])
    \<and> (shell_failed code (stdout_text evs) ''MV_FAILED'' \<longrightarrow>
            notifications (rename_file reg sessionId oldPath newPath (Some err) (ExecStream evs)) =
              [Emit ''sftp-error'' (Text (''Failed to rename with mv command: '' @ stderr_text evs))])
    \<and> (shell_failed code (stdout_text evs) ''MKDIR_FAILED'' \<longrightarrow>
            notifications (create_folder reg sessionId path (Some err) (ExecStream evs)) =
              [Emit ''sftp-error''
                 (Text (''Failed to create folder with mkdir command: '' @ stderr_text evs))])
    \<and> (code \<noteq> Some 0 \<longrightarrow>
            notifications (read_file reg sessionId path
                (ReadStream (map RsData chunks @ [RsError err])) (ExecStream evs)) =
              [Emit ''sftp-error'' (Text (''Failed to read file with cat command: '' @ stderr_text evs))])
    \<and> (shell_failed code (stdout_text evs) ''WRITE_FAILED'' \<and> set rest \<subseteq> {WsClose} \<longrightarrow>
            error_texts (save_file reg sessionId path content st (WsError err # rest) (ExecStream evs)
                timestamp) =
              [''Failed to save file with shell command: '' @ stderr_text evs])
    \<and> notifications (rename_file reg sessionId oldPath newPath (Some err) (ExecError shellErr)) =
          [Emit ''sftp-error''
             (Text (''Failed to rename: '' @ err @ ''. Shell command also failed: '' @ shellErr))]
    \<and> notifications (delete_file reg sessionId path isDirectory (Some err) (ExecError shellErr)) =
          [Emit ''sftp-error''
             (Text ((if isDirectory then ''Failed to delete directory: '' else ''Failed to delete file: '')
                    @ err @ ''. Shell command also failed: '' @ shellErr))]
    \<and> notifications (create_folder reg sessionId path (Some err) (ExecError shellErr)) =
          [Emit ''sftp-error''
             (Text (''Failed to create folder: '' @ err @ ''. Shell command also failed: '' @ shellErr))]"
proof -
  note [simp] = notifications_def shell_failed_def exec_cb_error
  have 1: "shell_failed code (stdout_text evs) ''RM_FAILED'' \<longrightarrow>
            notifications (delete_file reg sessionId path isDirectory (Some err) (ExecStream evs)) =
              [Emit ''sftp-error''
                 (Text ((if isDirectory then ''Failed to delete directory with rm command: ''
                         else ''Failed to delete file with rm command: '') @ stderr_text evs))]"
    by (simp add: delete_file_closed [OF assms])
  have 2: "shell_failed code (stdout_text evs) ''MV_FAILED'' \<longrightarrow>
            notifications (rename_file reg sessionId oldPath newPath (Some err) (ExecStream evs)) =
              [Emit ''sftp-error'' (Text (''Failed to rename with mv command: '' @ stderr_text evs))]"
    by (simp add: rename_file_closed [OF assms])
  have 3: "shell_failed code (stdout_text evs) ''MKDIR_FAILED'' \<longrightarrow>
            notifications (create_folder reg sessionId path (Some err) (ExecStream evs)) =
              [Emit ''sftp-error''
                 (Text (''Failed to create folder with mkdir command: '' @ stderr_text evs))]"
    by (simp add: create_folder_closed [OF assms])
  have 4: "code \<noteq> Some 0 \<longrightarrow>
            notifications (read_file reg sessionId path
                (ReadStream (map RsData chunks @ [RsError err])) (ExecStream evs)) =
              [Emit ''sftp-error'' (Text (''Failed to read file with cat command: '' @ stderr_text evs))]"
    by (simp add: read_file_closed [OF assms])
  have 5: "shell_failed code (stdout_text evs) ''WRITE_FAILED'' \<and> set rest \<subseteq> {WsClose} \<longrightarrow>
            error_texts (save_file reg sessionId path content st (WsError err # rest) (ExecStream evs)
                timestamp) =
              [''Failed to save file with shell command: '' @ stderr_text evs]"
    by (auto simp add: save_file_closed [OF assms] error_texts_saved)
  have 6: "notifications (rename_file reg sessionId oldPath newPath (Some err) (ExecError shellErr)) =
          [Emit ''sftp-error''
             (Text (''Failed to rename: '' @ err @ ''. Shell command also failed: '' @ shellErr))]"
    using assms(1) by (simp add: rename_file_def)
  have 7: "notifications (delete_file reg sessionId path isDirectory (Some err) (ExecError shellErr)) =
          [Emit ''sftp-error''
             (Text ((if isDirectory then ''Failed to delete directory: '' else ''Failed to delete file: '')
                    @ err @ ''. Shell command also failed: '' @ shellErr))]"
    using assms(1) by (simp add: delete_file_def)
  have 8: "notifications (create_folder reg sessionId path (Some err) (ExecError shellErr)) =
          [Emit ''sftp-error''
             (Text (''Failed to create folder: '' @ err @ ''. Shell command also failed: '' @ shellErr))]"
    using assms(1) by (simp add: create_folder_def)
  from 1 2 3 4 5 6 7 8 show ?thesis by blast
qed

theorem fallback_failure_notification_witness:
  "sftp_of reg0 ''s1'' = Some (1, 2)
   \<and> exit_code [StderrData ''mv: cannot move'', Close (Some 1)] = Some (Some 1)
   \<and> shell_failed (Some 1) (stdout_text [StderrData ''mv: cannot move'', Close (Some 1)]) ''MV_FAILED''
   \<and> notifications (rename_file reg0 ''s1'' ''/a'' ''/b'' (Some ''EPERM'')
        (ExecStream [StderrData ''mv: cannot move'', Close (Some 1)])) =
       [Emit ''sftp-error'' (Text ''Failed to rename with mv command: mv: cannot move'')]
   \<and> notifications (rename_file reg0 ''s1'' ''/a'' ''/b'' (Some ''EPERM'') (ExecError ''No response'')) =
       [Emit ''sftp-error'' (Text ''Failed to rename: EPERM. Shell command also failed: No response'')]
   \<and> shell_failed (Some 1) (stdout_text [StderrData ''mv: cannot move'', Close (Some 1)]) ''WRITE_FAILED''
   \<and> set [WsClose] \<subseteq> {WsClose}
   \<and> error_texts (save_file reg0 ''s1'' ''/a'' ''text'' NoStats [WsError ''EPERM'', WsClose]
        (ExecStream [StderrData ''mv: cannot move'', Close (Some 1)]) ''1700000000000'') =
       [''Failed to save file with shell command: mv: cannot move'']"
proof -
  have h1: "sftp_of reg0 ''s1'' = Some (1, 2)" by (rule sftp_of_reg0)
  have h2: "exit_code [StderrData ''mv: cannot move'', Close (Some 1)] = Some (Some 1)" by simp
  have h3: "shell_failed (Some 1) (stdout_text [StderrData ''mv: cannot move'', Close (Some 1)]) ''MV_FAILED''"
    by (simp add: shell_failed_def)
  have h4: "shell_failed (Some 1) (stdout_text [StderrData ''mv: cannot move'', Close (Some 1)]) ''WRITE_FAILED''"
    by (simp add: shell_failed_def)
  have h5: "set [WsClose] \<subseteq> {WsClose}" by simp
  from fallback_failure_notification [OF h1 h2, where err = "''EPERM''" and oldPath = "''/a''"
      and newPath = "''/b''" and shellErr = "''No response''" and rest = "[WsClose]"
      and path = "''/a''" and content = "''text''" and st = NoStats
      and timestamp = "''1700000000000''"] h1 h2 h3 h4 h5
  show ?thesis by simp
qed

text \<open>For \<^verbatim>\<open>delete-file\<close>, \<^verbatim>\<open>rename-file\<close>, \<^verbatim>\<open>create-folder\<close> and \<^verbatim>\<open>read-file\<close>, a
  fallback that exits with code 0 and prints no sentinel leads to the notification that a
  successful SFTP call leads to. \<open>shell'\<close> is a shell that is never asked.\<close>

lemma fallback_success_notification:
  assumes "sftp_of reg sessionId = Some (c, sf)" and "exit_code evs = Some (Some 0)"
  shows "(\<not> str_includes (stdout_text evs) ''RM_FAILED'' \<longrightarrow>
            notifications (delete_file reg sessionId path isDirectory (Some err) (ExecStream evs)) =
              [Emit ''delete-complete'' NoPayload]
            \<and> notifications (delete_file reg sessionId path isDirectory None shell') =
              [Emit ''delete-complete'' NoPayload])
    \<and> (\<not> str_includes (stdout_text evs) ''MV_FAILED'' \<longrightarrow>
            notifications (rename_file reg sessionId oldPath newPath (Some err) (ExecStream evs)) =
              [Emit ''rename-complete'' NoPayload]
            \<and> notifications (rename_file reg sessionId oldPath newPath None shell') =
              [Emit ''rename-complete'' NoPayload])
    \<and> (\<not> str_includes (stdout_text evs) ''MKDIR_FAILED'' \<longrightarrow>
            notifications (create_folder reg sessionId path (Some err) (ExecStream evs)) =
              [Emit ''folder-created'' NoPayload]
            \<and> notifications (create_folder reg sessionId path None shell') =
              [Emit ''folder-created'' NoPayload])
    \<and> notifications (read_file reg sessionId path
           (ReadStream (map RsData chunks @ [RsError err])) (ExecStream evs)) =
         [Emit ''file-content'' (PathContent path (stdout_text evs))]
    \<and> notifications (read_file reg sessionId path (ReadStream (map RsData chunks @ [RsEnd])) shell') =
         [Emit ''file-content'' (PathContent path (concat chunks))]"
proof -
  note [simp] = notifications_def
  have 1: "\<not> str_includes (stdout_text evs) ''RM_FAILED'' \<longrightarrow>
            notifications (delete_file reg sessionId path isDirectory (Some err) (ExecStream evs)) =
              [Emit ''delete-complete'' NoPayload]
            \<and> notifications (delete_file reg sessionId path isDirectory None shell') =
              [Emit ''delete-complete'' NoPayload]"
    using assms(1) by (simp add: delete_file_closed [OF assms]) (simp add: delete_file_def)
  have 2: "\<not> str_includes (stdout_text evs) ''MV_FAILED'' \<longrightarrow>
            notifications (rename_file reg sessionId oldPath newPath (Some err) (ExecStream evs)) =
              [Emit ''rename-complete'' NoPayload]
            \<and> notifications (rename_file reg sessionId oldPath newPath None shell') =
              [Emit ''rename-complete'' NoPayload]"
    using assms(1) by (simp add: rename_file_closed [OF assms]) (simp add: rename_file_def)
  have 3: "\<not> str_includes (stdout_text evs) ''MKDIR_FAILED'' \<longrightarrow>
            notifications (create_folder reg sessionId path (Some err) (ExecStream evs)) =
              [Emit ''folder-created'' NoPayload]
            \<and> notifications (create_folder reg sessionId path None shell') =
              [Emit ''folder-created'' NoPayload]"
    using assms(1) by (simp add: create_folder_closed [OF assms]) (simp add: create_folder_def)
  have 5: "notifications (read_file reg sessionId path
           (ReadStream (map RsData chunks @ [RsError err])) (ExecStream evs)) =
         [Emit ''file-content'' (PathContent path (stdout_text evs))]"
    by (simp add: read_file_closed [OF assms])
  have 6: "notifications (read_file reg sessionId path (ReadStream (map RsData chunks @ [RsEnd])) shell') =
         [Emit ''file-content'' (PathContent path (concat chunks))]"
    using assms(1) by (simp add: read_file_def read_events_data)
  from 1 2 3 5 6 show ?thesis by blast
qed

text \<open>In \<^verbatim>\<open>save-file\<close> the \<^verbatim>\<open>close\<close> listener does not look at whether the stream has
  reported an error. When the write stream fails and closes, the client is therefore sent
  \<^verbatim>\<open>file-saved\<close> before the command has answered, and then the result of the command:
  \<^verbatim>\<open>file-saved\<close> once more when the command is taken to have succeeded, an
  \<^verbatim>\<open>sftp-error\<close> when it has failed.\<close>

lemma save_file_error_then_close:
  assumes "sftp_of reg sessionId = Some (c, sf)" and "exit_code evs = Some code"
  shows "notifications
           (save_file reg sessionId path content st [WsError err, WsClose] (ExecStream evs) timestamp) =
     [Emit ''file-saved'' (PathOnly path),
      if shell_failed code (stdout_text evs) ''WRITE_FAILED''
      then Emit ''sftp-error'' (Text (''Failed to save file with shell command: '' @ stderr_text evs))
      else Emit ''file-saved'' (PathOnly path)]"
  using save_file_closed [OF assms, of "[WsClose]" path content st err timestamp]
  by (simp add: notifications_def shell_failed_def)

text \<open>
  C7 fails in \<^verbatim>\<open>save-file\<close>. The request is \<^verbatim>\<open>save-file\<close> for \<^verbatim>\<open>/srv/a\<close> with a content
  whose second line is \<^verbatim>\<open>SFTPEOF\<close> and whose third line is \<^verbatim>\<open>: << X\<close>; the write stream
  reports an error and closes, and the command, whose here-document ends at the second
  line of the content, exits with code 0 and prints nothing. The client is sent
  \<^verbatim>\<open>file-saved\<close> twice, the first time by the \<^verbatim>\<open>close\<close> listener before the command has
  answered; when the write stream succeeds the client is sent \<^verbatim>\<open>file-saved\<close> once.
\<close>

theorem save_file_saved_twice:
  \<open>notifications (save_file reg0 ''s1'' ''/srv/a'' crafted_content NoStats
       [WsError ''Permission denied'', WsClose] (ExecStream [Close (Some 0)]) ''1700000000000'') =
     [Emit ''file-saved'' (PathOnly ''/srv/a''), Emit ''file-saved'' (PathOnly ''/srv/a'')]
   \<and> notifications (save_file reg0 ''s1'' ''/srv/a'' crafted_content NoStats
       [WsClose] (ExecStream []) ''1700000000000'') =
     [Emit ''file-saved'' (PathOnly ''/srv/a'')]
   \<and> commands (save_file reg0 ''s1'' ''/srv/a'' crafted_content NoStats
       [WsError ''Permission denied'', WsClose] (ExecStream [Close (Some 0)]) ''1700000000000'') =
     [''cat > "/tmp/sftp_temp_1700000000000" << '' @ [CHR 0x27] @ ''SFTPEOF'' @ [CHR 0x27, CHR 0x0A]
      @ ''hello'' @ [CHR 0x0A] @ ''SFTPEOF'' @ [CHR 0x0A] @ '': << X'' @ [CHR 0x0A]
      @ ''SFTPEOF'' @ [CHR 0x0A]
      @ '' && mv "/tmp/sftp_temp_1700000000000" "/srv/a" || echo "WRITE_FAILED"'']\<close>
  by code_simp

theorem save_file_saved_twice_witness:
  "length (notifications (save_file reg0 ''s1'' ''/srv/a'' crafted_content NoStats
       [WsError ''Permission denied'', WsClose] (ExecStream [Close (Some 0)]) ''1700000000000'')) = 2
   \<and> length (notifications (save_file reg0 ''s1'' ''/srv/a'' crafted_content NoStats
       [WsClose] (ExecStream []) ''1700000000000'')) = 1"
  using save_file_saved_twice by simp

section \<open>Requests without a registered capability\<close>

lemma sftp_of_None:
  "sftp_of reg sessionId = None \<longleftrightarrow>
     reg sessionId = None \<or> (\<exists>e. reg sessionId = Some e \<and> sftp e = None)"
  by (auto simp add: sftp_of_def split: option.splits)

text \<open>
  C9. A file request for a session that has no entry in the registry, or whose entry has
  no SFTP session, is answered with the one notification \<^verbatim>\<open>sftp-error\<close>,
  \<^verbatim>\<open>No active SFTP connection\<close>, and nothing else is done: no SFTP call and no command.
  This holds for all eight file handlers. A terminal command for a session that has no
  entry, or whose entry has no shell stream, is answered with \<^verbatim>\<open>error\<close>,
  \<^verbatim>\<open>No active SSH connection\<close>, and nothing is written to a stream.
\<close>

theorem no_active_connection:
  "((reg sessionId = None \<or> (\<exists>e. reg sessionId = Some e \<and> sftp e = None)) \<longrightarrow>
      list_directory reg sessionId path res =
        [Emit ''sftp-error'' (Text ''No active SFTP connection'')]
      \<and> zip_directory reg sessionId path timestamp shell shell2 =
        [Emit ''sftp-error'' (Text ''No active SFTP connection'')]
      \<and> upload_file reg sessionId path fileData ws =
        [Emit ''sftp-error'' (Text ''No active SFTP connection'')]
      \<and> delete_file reg sessionId path isDirectory sftp_err shell =
        [Emit ''sftp-error'' (Text ''No active SFTP connection'')]
      \<and> rename_file reg sessionId oldPath newPath sftp_err shell =
        [Emit ''sftp-error'' (Text ''No active SFTP connection'')]
      \<and> create_folder reg sessionId path sftp_err shell =
        [Emit ''sftp-error'' (Text ''No active SFTP connection'')]
      \<and> read_file reg sessionId path rr shell =
        [Emit ''sftp-error'' (Text ''No active SFTP connection'')]
      \<and> save_file reg sessionId path content st ws shell timestamp =
        [Emit ''sftp-error'' (Text ''No active SFTP connection'')])
   \<and> ((reg sessionId = None \<or> (\<exists>e. reg sessionId = Some e \<and> stream e = None)) \<longrightarrow>
      command reg sessionId cmd = [Emit ''error'' (Text ''No active SSH connection'')])"
proof -
  have "command reg sessionId cmd = [Emit ''error'' (Text ''No active SSH connection'')]"
    if "reg sessionId = None \<or> (\<exists>e. reg sessionId = Some e \<and> stream e = None)"
    using that by (auto simp add: command_def)
  moreover have "list_directory reg sessionId path res =
        [Emit ''sftp-error'' (Text ''No active SFTP connection'')]
      \<and> zip_directory reg sessionId path timestamp shell shell2 =
        [Emit ''sftp-error'' (Text ''No active SFTP connection'')]
      \<and> upload_file reg sessionId path fileData ws =
        [Emit ''sftp-error'' (Text ''No active SFTP connection'')]
      \<and> delete_file reg sessionId path isDirectory sftp_err shell =
        [Emit ''sftp-error'' (Text ''No active SFTP connection'')]
      \<and> rename_file reg sessionId oldPath newPath sftp_err shell =
        [Emit ''sftp-error'' (Text ''No active SFTP connection'')]
      \<and> create_folder reg sessionId path sftp_err shell =
        [Emit ''sftp-error'' (Text ''No active SFTP connection'')]
      \<and> read_file reg sessionId path rr shell =
        [Emit ''sftp-error'' (Text ''No active SFTP connection'')]
      \<and> save_file reg sessionId path content st ws shell timestamp =
        [Emit ''sftp-error'' (Text ''No active SFTP connection'')]"
    if "reg sessionId = None \<or> (\<exists>e. reg sessionId = Some e \<and> sftp e = None)"
  proof -
    from that have "sftp_of reg sessionId = None" by (simp add: sftp_of_None)
    then show ?thesis
      by (simp add: list_directory_def zip_directory_def upload_file_def delete_file_def
          rename_file_def create_folder_def read_file_def save_file_def no_sftp_def)
  qed
  ultimately show ?thesis by blast
qed

theorem no_active_connection_witness:
  "(init_reg ''s1'' = None \<or> (\<exists>e. init_reg ''s1'' = Some e \<and> sftp e = None))
   \<and> delete_file init_reg ''s1'' ''/srv/a'' False (Some ''Failure'') (ExecStream [Close (Some 0)]) =
       [Emit ''sftp-error'' (Text ''No active SFTP connection'')]
   \<and> (reg0 ''s1'' = None \<or> (\<exists>e. reg0 ''s1'' = Some e \<and> stream e = None))
   \<and> command reg0 ''s1'' ''ls'' = [Emit ''error'' (Text ''No active SSH connection'')]"
proof -
  have h1: "init_reg ''s1'' = None \<or> (\<exists>e. init_reg ''s1'' = Some e \<and> sftp e = None)"
    by (simp add: init_reg_def)
  have h2: "reg0 ''s1'' = None \<or> (\<exists>e. reg0 ''s1'' = Some e \<and> stream e = None)"
    by (simp add: reg0_def)
  note f = no_active_connection [where reg = init_reg and sessionId = "''s1''",
      THEN conjunct1, THEN mp, OF h1]
  note g = no_active_connection [where reg = reg0 and sessionId = "''s1''",
      THEN conjunct2, THEN mp, OF h2]
  from f g h1 h2 show ?thesis by simp
qed

section \<open>The HTTP save route\<close>

lemma file_save_listen_no_command: "execs (file_save_listen sent ws) = []"
  by (induction sent ws rule: file_save_listen.induct) (simp_all add: execs_def)

lemma file_save_events_no_command: "execs (file_save_events ws) = []"
  by (simp add: file_save_events_def file_save_listen_no_command)

lemma file_save_no_command: "execs (file_save reg authenticated path content sessionId ws) = []"
  using file_save_events_no_command [of ws]
  by (simp add: file_save_def execs_def split: option.splits)

lemma file_save_listen_no_stat: "filter is_stat (file_save_listen sent ws) = []"
  by (induction sent ws rule: file_save_listen.induct) simp_all

lemma file_save_events_no_stat: "filter is_stat (file_save_events ws) = []"
  by (simp add: file_save_events_def file_save_listen_no_stat)

text \<open>When the write stream of \<^verbatim>\<open>/file/save\<close> reports an error and then closes, the
  request is answered with status 500 and the answer of the \<^verbatim>\<open>close\<close> listener throws.\<close>

lemma file_save_events_error_then_close:
  "file_save_events [WsError err, WsClose] =
     [Respond 500 (JsonError (''Failed to save file: '' @ err)), Throw ''ERR_HTTP_HEADERS_SENT'']"
  by (simp add: file_save_events_def)

text \<open>
  C10. For an authenticated request with a path, a content and a session that has an SFTP
  session, \<^verbatim>\<open>/file/save\<close> opens the write stream with mode \<^verbatim>\<open>0o644\<close> (420) without
  asking for the mode of the file, answers an error of the write stream with status 500,
  and runs no command, whatever the request and the stream do. The \<^verbatim>\<open>save-file\<close>
  handler asks \<^verbatim>\<open>stat\<close> first, opens the write stream with the mode it reports, and runs
  its shell command when the write stream reports an error.
\<close>

theorem http_save_fixed_mode_no_fallback:
  assumes "sftp_of reg sid = Some (c, sf)" and "p \<noteq> []" and "sid \<noteq> []"
  shows "file_save reg True (Some p) (Some cnt) (Some sid) ws =
           Sftp sf (CreateWriteStream p 420) # Sftp sf (WriteEnd cnt) # file_save_events ws
    \<and> filter is_stat (file_save reg True (Some p) (Some cnt) (Some sid) ws) = []
    \<and> file_save reg True (Some p) (Some cnt) (Some sid) [WsError err] =
           [Sftp sf (CreateWriteStream p 420), Sftp sf (WriteEnd cnt),
            Respond 500 (JsonError (''Failed to save file: '' @ err))]
    \<and> execs (file_save reg authenticated path content sessionId ws) = []
    \<and> save_file reg sid p cnt (Stats m) [WsError err] shell timestamp =
           Sftp sf (Stat p) # Sftp sf (CreateWriteStream p m) # Sftp sf (WriteEnd cnt) #
           Exec c (save_command timestamp p cnt) #
           drop 4 (save_file reg sid p cnt (Stats m) [WsError err] shell timestamp)
    \<and> length (execs (save_file reg sid p cnt (Stats m) [WsError err] shell timestamp)) = 1"
proof -
  have 1: "file_save reg True (Some p) (Some cnt) (Some sid) ws =
           Sftp sf (CreateWriteStream p 420) # Sftp sf (WriteEnd cnt) # file_save_events ws"
    for ws
    using assms by (simp add: file_save_def)
  have 2: "filter is_stat (file_save reg True (Some p) (Some cnt) (Some sid) ws) = []"
    by (simp add: 1 file_save_events_no_stat)
  have 3: "file_save reg True (Some p) (Some cnt) (Some sid) [WsError err] =
           [Sftp sf (CreateWriteStream p 420), Sftp sf (WriteEnd cnt),
            Respond 500 (JsonError (''Failed to save file: '' @ err))]"
    by (simp add: 1 file_save_events_def)
  have 4: "save_file reg sid p cnt (Stats m) [WsError err] shell timestamp =
           Sftp sf (Stat p) # Sftp sf (CreateWriteStream p m) # Sftp sf (WriteEnd cnt) #
           Exec c (save_command timestamp p cnt) #
           drop 4 (save_file reg sid p cnt (Stats m) [WsError err] shell timestamp)"
    using assms(1) by (simp add: save_file_def)
  have 5: "length (execs (save_file reg sid p cnt (Stats m) [WsError err] shell timestamp)) = 1"
    using save_file_one_fallback [OF assms(1), of "[]" p cnt "Stats m" err shell timestamp]
    by (simp add: one_fallback_first_def)
  from 1 [of ws] 2 3 4 5 file_save_no_command [of reg authenticated path content sessionId ws]
  show ?thesis by blast
qed

theorem http_save_fixed_mode_no_fallback_witness:
  "sftp_of reg0 ''s1'' = Some (1, 2) \<and> ''/srv/a'' \<noteq> [] \<and> ''s1'' \<noteq> []
   \<and> file_save reg0 True (Some ''/srv/a'') (Some ''text'') (Some ''s1'') [WsError ''Failure''] =
       [Sftp 2 (CreateWriteStream ''/srv/a'' 420), Sftp 2 (WriteEnd ''text''),
        Respond 500 (JsonError ''Failed to save file: Failure'')]
   \<and> length (execs (save_file reg0 ''s1'' ''/srv/a'' ''text'' (Stats 493) [WsError ''Failure'']
        (ExecStream [Close (Some 0)]) ''1700000000000'')) = 1"
proof -
  have h1: "sftp_of reg0 ''s1'' = Some (1, 2)" by (rule sftp_of_reg0)
  have h2: "''/srv/a'' \<noteq> []" and h3: "''s1'' \<noteq> []" by simp_all
  note t = http_save_fixed_mode_no_fallback [OF h1 h2 h3, where cnt = "''text''" and err = "''Failure''"
      and m = 493 and shell = "ExecStream [Close (Some 0)]" and timestamp = "''1700000000000''"
      and ws = "[]" and authenticated = True and path = None and content = None
      and sessionId = None]
  note a = t [THEN conjunct2, THEN conjunct2, THEN conjunct1]
  note b = t [THEN conjunct2, THEN conjunct2, THEN conjunct2, THEN conjunct2, THEN conjunct2]
  from a b h1 h2 h3 show ?thesis by simp
qed

section \<open>Paths in shell commands\<close>

lemma replace_dq_no_quote: "CHR 0x22 \<notin> set p \<Longrightarrow> replace_dq p = p"
  by (induction p) auto

text \<open>The replacement leaves a backslash of the path alone, so a backslash in front of a
  double quote of the path undoes the escape: for the path \<^verbatim>\<open>\";ls #\<close> the command of
  \<^verbatim>\<open>delete-file\<close> has a semicolon outside double quotes.\<close>

lemma delete_file_backslash_quote:
  \<open>commands (delete_file reg0 ''s1'' ([CHR 0x5C] @ ''";ls #'') False (Some ''Failure'')
       (ExecStream [Close (Some 0)])) =
     [''rm "'' @ [CHR 0x5C, CHR 0x5C] @ ''";ls #" || echo "RM_FAILED"'']
   \<and> top_level_semicolons False
        (''rm "'' @ [CHR 0x5C, CHR 0x5C] @ ''";ls #" || echo "RM_FAILED"'') = 1\<close>
  by code_simp

text \<open>
  C2 fails in \<^verbatim>\<open>zip-directory\<close>, which puts the path between double quotes as it is,
  while \<^verbatim>\<open>delete-file\<close> and the other handlers with a fallback put a backslash before
  every double quote of the path. With the path of the specification's test,
  \<^verbatim>\<open>a"; touch /tmp/pwned; echo "b\<close>, the command of \<^verbatim>\<open>zip-directory\<close> has four
  semicolons outside double quotes, so that the shell runs \<^verbatim>\<open>touch /tmp/pwned\<close> as a
  command of its own; the command of \<^verbatim>\<open>delete-file\<close> for the same path has none. The
  \<^verbatim>\<open>cd\<close> that \<^verbatim>\<open>connect-ssh\<close> writes to the shell carries the initial path without
  any quotes.
\<close>

theorem zip_directory_path_unescaped:
  \<open>commands (zip_directory reg0 ''s1'' evil_path ''1700000000000''
       (ExecStream [Close (Some 0)]) (ExecStream [])) =
     [''zip -r "a"; touch /tmp/pwned; echo "b-1700000000000.zip" "a"; touch /tmp/pwned; echo "b" || echo "ZIP_FAILED"'']
   \<and> top_level_semicolons False
        (''zip -r "a"; touch /tmp/pwned; echo "b-1700000000000.zip" "a"; touch /tmp/pwned; echo "b" || echo "ZIP_FAILED"'') = 4
   \<and> commands (delete_file reg0 ''s1'' evil_path False (Some ''Failure'') (ExecStream [Close (Some 0)])) =
     [''rm "a'' @ [CHR 0x5C] @ ''"; touch /tmp/pwned; echo '' @ [CHR 0x5C] @ ''"b" || echo "RM_FAILED"'']
   \<and> top_level_semicolons False
        (''rm "a'' @ [CHR 0x5C] @ ''"; touch /tmp/pwned; echo '' @ [CHR 0x5C] @ ''"b" || echo "RM_FAILED"'') = 0
   \<and> log (ssh_shell_cb ''s1'' 1 (Inr 10) (Some evil_path) init) =
     [StreamWrite 10 (''cd a"; touch /tmp/pwned; echo "b'' @ [CHR 0x0A])]\<close>
  by code_simp

theorem zip_directory_path_unescaped_witness:
  \<open>map (top_level_semicolons False)
     (commands (zip_directory reg0 ''s1'' evil_path ''1700000000000''
        (ExecStream [Close (Some 0)]) (ExecStream []))) = [4]
   \<and> map (top_level_semicolons False)
     (commands (delete_file reg0 ''s1'' evil_path False (Some ''Failure'')
        (ExecStream [Close (Some 0)]))) = [0]\<close>
  using zip_directory_path_unescaped by simp

section \<open>The registry over a run\<close>

lemma sshConnections_act [simp]: "sshConnections (act a s) = sshConnections s"
  by (simp add: act_def)

lemma log_act [simp]: "log (act a s) = log s @ [a]"
  by (simp add: act_def)

lemma sshConnections_store [simp]:
  "sshConnections (store k e s) = (sshConnections s)(k := Some e)"
  by (simp add: store_def)

lemma log_store [simp]: "log (store k e s) = log s"
  by (simp add: store_def)

lemma sshConnections_delete_entry [simp]:
  "sshConnections (delete_entry k s) = (sshConnections s)(k := None)"
  by (simp add: delete_entry_def)

lemma log_delete_entry [simp]: "log (delete_entry k s) = log s"
  by (simp add: delete_entry_def)

lemma ended_append [simp]: "ended (xs @ ys) = ended xs @ ended ys"
  by (induction xs rule: ended.induct) simp_all

text \<open>A step changes the registry at most at the session of its event, and there it either
  deletes the entry, leaves it, or stores the entry that the event registers.\<close>

lemma step_entry:
  "sshConnections (step s ev) k = Some e \<Longrightarrow>
   sshConnections s k = Some e \<or> registers k e ev"
  by (cases ev)
     (auto simp add: ssh_ready_def ssh_shell_cb_def ssh_stream_data_def ssh_stream_stderr_def
        ssh_stream_close_def ssh_conn_error_def ssh_conn_close_def sftp_ready_def sftp_cb_def
        sftp_conn_error_def sftp_conn_close_def socket_disconnect_def logout_def
        disconnect_route_def caught_def Let_def
        split: sum.splits option.splits if_splits)

lemma run_snoc: "run (es @ [ev]) = step (run es) ev"
  by (simp add: run_def)

lemma run_entry:
  "sshConnections (run es) k = Some e \<Longrightarrow> list_ex (registers k e) es"
proof (induction es arbitrary: e rule: rev_induct)
  case Nil
  then show ?case by (simp add: run_def init_def)
next
  case (snoc ev es)
  from snoc.prems have "sshConnections (step (run es) ev) k = Some e"
    by (simp add: run_snoc)
  then have "sshConnections (run es) k = Some e \<or> registers k e ev"
    by (rule step_entry)
  with snoc.IH show ?case by auto
qed

lemma registers_one_kind: "registers k e ev \<Longrightarrow> one_kind e"
  by (induction k e ev rule: registers.induct) (simp_all add: one_kind_def)

lemma run_one_kind:
  assumes "sshConnections (run es) k = Some e"
  shows "one_kind e"
proof -
  from run_entry [OF assms] obtain ev where "registers k e ev"
    by (auto simp add: list_ex_iff)
  then show ?thesis by (rule registers_one_kind)
qed

section \<open>Replacing, tearing down and failing to connect\<close>

text \<open>
  C5, as stated, does not hold: when a second shell is opened for a session that already
  has an entry, the entry is overwritten and the transport of the first entry is not
  ended.
\<close>

theorem second_transport_not_closed:
  "sshConnections (run [SshReady ''s1'' 1, SshShellCb ''s1'' 1 (Inr 10) None,
                        SshReady ''s1'' 2, SshShellCb ''s1'' 2 (Inr 20) None]) ''s1'' =
     Some \<lparr>conn = 2, stream = Some 20, sftp = None\<rparr>
   \<and> ended (log (run [SshReady ''s1'' 1, SshShellCb ''s1'' 1 (Inr 10) None,
                      SshReady ''s1'' 2, SshShellCb ''s1'' 2 (Inr 20) None])) = []"
  by (simp add: run_def init_def ssh_ready_def ssh_shell_cb_def)

text \<open>
  C5, amended. The registry holds at most one entry for a session identifier (it is a map),
  and after any run every entry holds one transport and exactly one of a shell stream and
  an SFTP session. When a shell or an SFTP session is opened for a session that already
  has an entry, the entry is overwritten with the new handles; the handler ends no
  transport, so the transport of the overwritten entry stays open.
\<close>

theorem one_entry_overwritten_not_closed:
  "(sshConnections (run es) k = Some e \<longrightarrow> one_kind e)
   \<and> sshConnections (ssh_shell_cb k c (Inr st) ip s) k =
       Some \<lparr>conn = c, stream = Some st, sftp = None\<rparr>
   \<and> ended (log (ssh_shell_cb k c (Inr st) ip s)) = ended (log s)
   \<and> sshConnections (sftp_cb k c (Inr sf) ip s) k =
       Some \<lparr>conn = c, stream = None, sftp = Some sf\<rparr>
   \<and> ended (log (sftp_cb k c (Inr sf) ip s)) = ended (log s)"
proof -
  have "sshConnections (ssh_shell_cb k c (Inr st) ip s) k =
       Some \<lparr>conn = c, stream = Some st, sftp = None\<rparr>"
    and "ended (log (ssh_shell_cb k c (Inr st) ip s)) = ended (log s)"
    by (simp_all add: ssh_shell_cb_def Let_def split: option.splits)
  moreover have "sshConnections (sftp_cb k c (Inr sf) ip s) k =
       Some \<lparr>conn = c, stream = None, sftp = Some sf\<rparr>"
    and "ended (log (sftp_cb k c (Inr sf) ip s)) = ended (log s)"
    by (simp_all add: sftp_cb_def)
  ultimately show ?thesis using run_one_kind [of es k e] by blast
qed

theorem one_entry_overwritten_not_closed_witness:
  "sshConnections (run [SshReady ''s1'' 1, SshShellCb ''s1'' 1 (Inr 10) None]) ''s1'' =
     Some \<lparr>conn = 1, stream = Some 10, sftp = None\<rparr>
   \<and> one_kind \<lparr>conn = 1, stream = Some 10, sftp = None\<rparr>"
proof -
  have h: "sshConnections (run [SshReady ''s1'' 1, SshShellCb ''s1'' 1 (Inr 10) None]) ''s1'' =
     Some \<lparr>conn = 1, stream = Some 10, sftp = None\<rparr>"
    by (simp add: run_def init_def ssh_ready_def ssh_shell_cb_def)
  from one_entry_overwritten_not_closed
         [where es = "[SshReady ''s1'' 1, SshShellCb ''s1'' 1 (Inr 10) None]" and k = "''s1''"
          and e = "\<lparr>conn = 1, stream = Some 10, sftp = None\<rparr>", THEN conjunct1, THEN mp, OF h] h
  show ?thesis by simp
qed

text \<open>The listener of the \<^verbatim>\<open>disconnect\<close> event of the socket may run twice: the second
  run finds no entry and changes nothing.\<close>

lemma socket_disconnect_twice:
  "socket_disconnect k (socket_disconnect k s) = socket_disconnect k s
   \<and> sshConnections (socket_disconnect k s) k = None"
  by (simp add: socket_disconnect_def split: option.splits)

lemma socket_disconnect_ends:
  "sshConnections s k = Some e \<Longrightarrow> log (socket_disconnect k s) = log s @ [ConnEnd (conn e)]"
  by (simp add: socket_disconnect_def)

text \<open>
  C6 fails in \<^verbatim>\<open>/logout\<close> (and in \<^verbatim>\<open>/disconnect\<close>, which has the same lines): for a
  session that has an entry the route calls \<^verbatim>\<open>end\<close> on the entry itself instead of on
  its transport, which throws a \<^verbatim>\<open>TypeError\<close>; the transport is not ended and the entry
  stays in the registry, at the first attempt and at every later one. The
  \<^verbatim>\<open>disconnect\<close> listener of the socket does what the claim says.
\<close>

theorem logout_throws_for_registered_session:
  "logout ''s1'' (run [SshReady ''s1'' 1, SshShellCb ''s1'' 1 (Inr 10) None]) =
     Inl (TypeError ''sshConnections[sessionId].end is not a function'')
   \<and> sshConnections (run [SshReady ''s1'' 1, SshShellCb ''s1'' 1 (Inr 10) None,
                          Logout ''s1'', Logout ''s1'']) ''s1'' =
       Some \<lparr>conn = 1, stream = Some 10, sftp = None\<rparr>
   \<and> ended (log (run [SshReady ''s1'' 1, SshShellCb ''s1'' 1 (Inr 10) None,
                      Logout ''s1'', Logout ''s1''])) = []"
  by (simp add: run_def init_def ssh_ready_def ssh_shell_cb_def logout_def caught_def)

theorem logout_throws_for_registered_session_witness:
  "step (run [SshReady ''s1'' 1, SshShellCb ''s1'' 1 (Inr 10) None]) (Logout ''s1'') =
     run [SshReady ''s1'' 1, SshShellCb ''s1'' 1 (Inr 10) None]"
  using logout_throws_for_registered_session by (simp add: caught_def)

text \<open>
  C8. When the transport of a \<^verbatim>\<open>connect-ssh\<close> request reports an error, or the shell
  cannot be opened, an \<^verbatim>\<open>error\<close> notification is emitted and the registry is left as
  it was (in the second case the transport is ended as well). After any run, an entry of
  the registry was put there by a shell or an SFTP session that was opened without an
  error for that session identifier and that transport.
\<close>

theorem failed_connect_registers_nothing:
  "sshConnections (step s (SshConnError k err)) = sshConnections s
   \<and> log (step s (SshConnError k err)) =
       log s @ [Emit ''error'' (Text (''Connection error: '' @ err))]
   \<and> sshConnections (step s (SshShellCb k c (Inl err) ip)) = sshConnections s
   \<and> log (step s (SshShellCb k c (Inl err) ip)) =
       log s @ [Emit ''error'' (Text (''Shell error: '' @ err)), ConnEnd c]
   \<and> (sshConnections (run es) k = Some e \<longrightarrow> list_ex (registers k e) es)"
proof -
  have "sshConnections (step s (SshConnError k err)) = sshConnections s"
    and "log (step s (SshConnError k err)) =
       log s @ [Emit ''error'' (Text (''Connection error: '' @ err))]"
    by (simp_all add: ssh_conn_error_def)
  moreover have "sshConnections (step s (SshShellCb k c (Inl err) ip)) = sshConnections s"
    and "log (step s (SshShellCb k c (Inl err) ip)) =
       log s @ [Emit ''error'' (Text (''Shell error: '' @ err)), ConnEnd c]"
    by (simp_all add: ssh_shell_cb_def)
  ultimately show ?thesis using run_entry [of es k e] by blast
qed

theorem failed_connect_registers_nothing_witness:
  "sshConnections (run [SshReady ''s1'' 1, SshShellCb ''s1'' 1 (Inl ''denied'') None,
                        SshReady ''s1'' 2, SshShellCb ''s1'' 2 (Inr 20) None]) ''s1'' =
     Some \<lparr>conn = 2, stream = Some 20, sftp = None\<rparr>
   \<and> list_ex (registers ''s1'' \<lparr>conn = 2, stream = Some 20, sftp = None\<rparr>)
        [SshReady ''s1'' 1, SshShellCb ''s1'' 1 (Inl ''denied'') None,
         SshReady ''s1'' 2, SshShellCb ''s1'' 2 (Inr 20) None]
   \<and> sshConnections (run [SshReady ''s1'' 1, SshShellCb ''s1'' 1 (Inl ''denied'') None]) ''s1'' = None"
proof -
  have h: "sshConnections (run [SshReady ''s1'' 1, SshShellCb ''s1'' 1 (Inl ''denied'') None,
                        SshReady ''s1'' 2, SshShellCb ''s1'' 2 (Inr 20) None]) ''s1'' =
     Some \<lparr>conn = 2, stream = Some 20, sftp = None\<rparr>"
    by (simp add: run_def init_def ssh_ready_def ssh_shell_cb_def)
  have n: "sshConnections (run [SshReady ''s1'' 1, SshShellCb ''s1'' 1 (Inl ''denied'') None]) ''s1'' = None"
    by (simp add: run_def init_def ssh_ready_def ssh_shell_cb_def)
  note r = failed_connect_registers_nothing
         [where es = "[SshReady ''s1'' 1, SshShellCb ''s1'' 1 (Inl ''denied'') None,
                       SshReady ''s1'' 2, SshShellCb ''s1'' 2 (Inr 20) None]" and k = "''s1''"
          and e = "\<lparr>conn = 2, stream = Some 20, sftp = None\<rparr>"]
  from r h n show ?thesis by blast
qed

end
